theory Spec2Isabelle
  imports Complex_Main
begin

section \<open>Values of the JavaScript runtime\<close>

text \<open>
  Exceptions are values. \<open>Error msg\<close> is \<^verbatim>\<open>new Error(msg)\<close> thrown by the
  application itself, \<open>SyntaxError\<close> is what \<^verbatim>\<open>JSON.parse\<close> throws, \<open>TypeError\<close> is a
  property read on \<^verbatim>\<open>null\<close>, and \<open>ServiceFailure\<close> stands for whatever the SDK of
  the generative service rejects with (network failure, timeout, non-2xx answer).
\<close>

datatype js_error = Error string | SyntaxError | TypeError | ServiceFailure string

text \<open>
  The value \<^verbatim>\<open>JSON.parse\<close> returns. A number is the real value of the parsed double.
  An object is the list of its own properties, each name once.
\<close>

datatype json =
    JNull
  | JBool bool
  | JNumber real
  | JString string
  | JArray "json list"
  | JObject "(string \<times> json) list"

text \<open>JavaScript truthiness of a parsed value: what \<^verbatim>\<open>v || d\<close> tests.\<close>

fun truthy :: "json \<Rightarrow> bool" where
  "truthy JNull = False"
| "truthy (JBool b) = b"
| "truthy (JNumber n) = (n \<noteq> 0)"
| "truthy (JString s) = (s \<noteq> [])"
| "truthy (JArray xs) = True"
| "truthy (JObject fs) = True"

text \<open>
  Truthiness of a value of type \<^verbatim>\<open>string | undefined\<close>: \<^verbatim>\<open>undefined\<close> and the empty
  string are falsy.
\<close>

fun truthy_str :: "string option \<Rightarrow> bool" where
  "truthy_str None = False"
| "truthy_str (Some s) = (s \<noteq> [])"

text \<open>\<^verbatim>\<open>s || d\<close> for \<^verbatim>\<open>s: string | undefined\<close>.\<close>

fun or_else :: "string option \<Rightarrow> string \<Rightarrow> string" where
  "or_else None d = d"
| "or_else (Some s) d = (if s = [] then d else s)"

text \<open>
  \<^verbatim>\<open>parsed.items\<close>: reading a property of \<^verbatim>\<open>null\<close> throws; an object yields its own
  property or \<^verbatim>\<open>undefined\<close> (\<open>None\<close>); arrays, strings, numbers and booleans have no
  property of that name.
\<close>

fun prop_items :: "json \<Rightarrow> js_error + json option" where
  "prop_items JNull = Inl TypeError"
| "prop_items (JObject fs) = Inr (map_of fs ''items'')"
| "prop_items (JBool b) = Inr None"
| "prop_items (JNumber n) = Inr None"
| "prop_items (JString s) = Inr None"
| "prop_items (JArray xs) = Inr None"

section \<open>Model Gateway (services/geminiService.ts)\<close>

text \<open>
  The request handed to \<^verbatim>\<open>ai.models.generateContent\<close>: the inline media part, the text
  part and, for the diagnosis call, the system instruction. The response schema is a
  constant of each operation and is enforced, if at all, by the service.
\<close>

record gen_request =
  inline_data :: string
  inline_mimeType :: string
  prompt :: string
  with_system_instruction :: bool

text \<open>What the SDK resolves with: only \<^verbatim>\<open>response.text\<close> is read.\<close>

record response =
  resp_text :: "string option"

definition detection_prompt :: string where
  "detection_prompt = ''Identify the distinct objects, appliances, or repair scenarios visible in this image. List them so the user can choose which one to fix. Provide 3-5 distinct items max.''"

definition detection_default_text :: string where
  \<open>detection_default_text = ''{ "items": [] }''\<close>

definition detection_request :: "string \<Rightarrow> string \<Rightarrow> gen_request" where
  "detection_request base64Data mimeType =
     \<lparr>inline_data = base64Data, inline_mimeType = mimeType, prompt = detection_prompt,
      with_system_instruction = False\<rparr>"

text \<open>
  \<^verbatim>\<open>detectItems\<close>. The runtime's \<^verbatim>\<open>JSON.parse\<close> and the service exchange are
  parameters; \<open>apiKey\<close> is \<^verbatim>\<open>process.env.API_KEY\<close>. The \<^verbatim>\<open>catch\<close> block logs and
  rethrows, so every exception leaves the function unchanged.
\<close>

definition detectItems ::
  "(string \<Rightarrow> js_error + json) \<Rightarrow> (gen_request \<Rightarrow> js_error + response) \<Rightarrow>
   string option \<Rightarrow> string \<Rightarrow> string \<Rightarrow> js_error + json" where
  "detectItems JSON_parse generateContent apiKey base64Data mimeType =
     (if \<not> truthy_str apiKey then Inl (Error ''API Key not found'')
      else
        case generateContent (detection_request base64Data mimeType) of
          Inl e \<Rightarrow> Inl e
        | Inr resp \<Rightarrow>
            (case JSON_parse (or_else (resp_text resp) detection_default_text) of
               Inl e \<Rightarrow> Inl e
             | Inr parsed \<Rightarrow>
                 (case prop_items parsed of
                    Inl e \<Rightarrow> Inl e
                  | Inr None \<Rightarrow> Inr (JArray [])
                  | Inr (Some v) \<Rightarrow> Inr (if truthy v then v else JArray []))))"

definition focused_prompt :: "string \<Rightarrow> string" where
  \<open>focused_prompt focusContext =
     ''Analyze the image focusing specifically on this item: "'' @ focusContext @
     ''". Provide a detailed repair guide and annotations for this specific problem.''\<close>

definition generic_prompt :: string where
  "generic_prompt = ''Analyze this and provide a repair guide with annotations.''"

text \<open>The prompt is the focused one when \<^verbatim>\<open>focusContext\<close> is truthy.\<close>

definition analysis_request :: "string \<Rightarrow> string \<Rightarrow> string option \<Rightarrow> gen_request" where
  "analysis_request base64Data mimeType focusContext =
     \<lparr>inline_data = base64Data, inline_mimeType = mimeType,
      prompt = (case focusContext of
                  None \<Rightarrow> generic_prompt
                | Some f \<Rightarrow> if f = [] then generic_prompt else focused_prompt f),
      with_system_instruction = True\<rparr>"

text \<open>
  \<^verbatim>\<open>analyzeMedia\<close>, the sibling of \<open>detectItems\<close>: here an absent or empty response text
  throws. The parsed value is returned as it is (the cast to \<^verbatim>\<open>FixItResponse\<close> checks
  nothing).
\<close>

definition analyzeMedia ::
  "(string \<Rightarrow> js_error + json) \<Rightarrow> (gen_request \<Rightarrow> js_error + response) \<Rightarrow>
   string option \<Rightarrow> string \<Rightarrow> string \<Rightarrow> string option \<Rightarrow> js_error + json" where
  "analyzeMedia JSON_parse generateContent apiKey base64Data mimeType focusContext =
     (if \<not> truthy_str apiKey then Inl (Error ''API Key not found in environment variables'')
      else
        case generateContent (analysis_request base64Data mimeType focusContext) of
          Inl e \<Rightarrow> Inl e
        | Inr resp \<Rightarrow>
            (case resp_text resp of
               None \<Rightarrow> Inl (Error ''No response from AI'')
             | Some t \<Rightarrow> if t = [] then Inl (Error ''No response from AI'') else JSON_parse t))"

text \<open>
  \<^verbatim>\<open>getChatResponse\<close> and \<^verbatim>\<open>getSupportChatResponse\<close>. Neither has a \<^verbatim>\<open>try\<close>: a missing
  key and a rejected \<^verbatim>\<open>chat.sendMessage\<close> both reject the returned promise. The
  parameter \<open>sent\<close> is the outcome of \<^verbatim>\<open>chat.sendMessage\<close>; the system instruction and
  the mapped history only travel to the service.
\<close>

definition repair_chat_canned :: string where
  "repair_chat_canned = ''I couldn't generate a response.''"

definition support_chat_canned :: string where
  "support_chat_canned = ''I'm having trouble connecting right now. Please try again later.''"

definition getChatResponse :: "string option \<Rightarrow> js_error + response \<Rightarrow> js_error + string" where
  "getChatResponse apiKey sent =
     (if \<not> truthy_str apiKey then Inl (Error ''API Key not found'')
      else case sent of
             Inl e \<Rightarrow> Inl e
           | Inr res \<Rightarrow> Inr (or_else (resp_text res) repair_chat_canned))"

definition getSupportChatResponse ::
  "string option \<Rightarrow> js_error + response \<Rightarrow> js_error + string" where
  "getSupportChatResponse apiKey sent =
     (if \<not> truthy_str apiKey then Inl (Error ''API Key not found'')
      else case sent of
             Inl e \<Rightarrow> Inl e
           | Inr res \<Rightarrow> Inr (or_else (resp_text res) support_chat_canned))"

text \<open>
  An instance of \<^verbatim>\<open>JSON.parse\<close> for the examples: it knows the three documents used
  there and rejects every other text.
\<close>

definition faucet_document :: string where
  \<open>faucet_document = ''{"items":[{"id":"1","name":"Faucet","description":"dripping"}]}''\<close>

definition faucet_items :: json where
  "faucet_items =
     JArray [JObject [(''id'', JString ''1''), (''name'', JString ''Faucet''),
                      (''description'', JString ''dripping'')]]"

definition sample_JSON_parse :: "string \<Rightarrow> js_error + json" where
  \<open>sample_JSON_parse t =
     (if t = ''{ "items": [] }'' then Inr (JObject [(''items'', JArray [])])
      else if t = ''{}'' then Inr (JObject [])
      else if t = faucet_document then Inr (JObject [(''items'', faucet_items)])
      else Inl SyntaxError)\<close>

section \<open>Data model (types.ts)\<close>

text \<open>
  Field names follow the source, except where the name is taken in HOL or is a keyword:
  \<open>resp_id\<close> is \<^verbatim>\<open>FixItResponse.id\<close>, \<open>item_id\<close> is \<^verbatim>\<open>DetectedItem.id\<close>, \<open>msg_text\<close> is
  \<^verbatim>\<open>ChatMessage.text\<close>, \<open>media_file\<close> and \<open>media_type\<close> are \<^verbatim>\<open>MediaFile.file\<close> and
  \<^verbatim>\<open>MediaFile.type\<close>, and \<open>file_name\<close>, \<open>file_type\<close>, \<open>file_size\<close> are the three
  properties of a browser \<^verbatim>\<open>File\<close> that the code reads. An optional property is an
  \<open>option\<close>. \<open>annotations\<close> is read by the result view (\<^verbatim>\<open>data.annotations\<close>).
\<close>

record RepairStep =
  step :: int
  instruction :: string
  detail :: string

text \<open>The numbers of a box are doubles, held as the reals they denote.\<close>

record Annotation =
  label :: string
  box_2d :: "real list"

record FixItResponse =
  resp_id :: "string option"
  timestamp :: "nat option"
  imageUrl :: "string option"
  title :: string
  problemDescription :: string
  rootCause :: string
  safetyWarnings :: "string list"
  toolsNeeded :: "string list"
  steps :: "RepairStep list"
  visualGuide :: string
  annotations :: "Annotation list option"

record File =
  file_name :: string
  file_type :: string
  file_size :: nat

datatype media_kind = MediaImage | MediaVideo

record MediaFile =
  media_file :: File
  previewUrl :: string
  media_type :: media_kind
  base64 :: "string option"

record DetectedItem =
  item_id :: string
  name :: string
  description :: string

datatype AppStatus = IDLE | UPLOADED | DETECTING | SELECTING | ANALYZING | SUCCESS | ERROR

datatype chat_role = user | model

record ChatMessage =
  role :: chat_role
  msg_text :: string

section \<open>Presentation mapping (AnnotatedImage in the result view)\<close>

text \<open>
  JavaScript numbers are IEEE 754 binary64, and every arithmetic operator rounds its exact
  result to the nearest double, ties to even. A finite double is held as the real it
  denotes.

  \<open>round_even\<close> rounds a real to the nearest integer, a tie to the even one.
\<close>

definition round_even :: "real \<Rightarrow> int" where
  "round_even t =
     (let f = \<lfloor>t\<rfloor>; d = t - of_int f
      in if d < 1 / 2 then f else if 1 / 2 < d then f + 1 else if even f then f else f + 1)"

text \<open>
  The binary exponent of a positive real: the \<open>e\<close> with \<open>2 powi e \<le> x < 2 powi (e + 1)\<close>,
  found by halving or doubling at most \<open>fuel\<close> times.
\<close>

fun binade :: "nat \<Rightarrow> real \<Rightarrow> int" where
  "binade 0 x = 0"
| "binade (Suc n) x =
     (if 2 \<le> x then binade n (x / 2) + 1
      else if x < 1 then binade n (2 * x) - 1
      else 0)"

text \<open>
  Rounding to binary64. The magnitude is rounded to a multiple of the unit in the last
  place of its binade, \<open>2 powi (e - 52)\<close>, with the exponent no smaller than \<open>- 1022\<close> (below
  that the doubles are subnormal and equally spaced). A result of magnitude \<open>2 powi 1024\<close>
  or more is \<^verbatim>\<open>Infinity\<close>: \<open>None\<close>. The fuel covers every exponent from \<open>- 1074\<close> to
  \<open>1024\<close>; the sign of zero is not kept.
\<close>

definition round_double :: "real \<Rightarrow> real option" where
  "round_double x =
     (let a = \<bar>x\<bar>;
          e = max (binade 1100 a) (- 1022);
          u = 2 powi (e - 52);
          r = u * of_int (round_even (a / u))
      in if 2 powi 1024 \<le> r then None else Some (if x < 0 then - r else r))"

text \<open>\<^verbatim>\<open>(v / 1000) * 100\<close>: a division and a multiplication, each rounded.\<close>

definition percent :: "real \<Rightarrow> real option" where
  "percent v = Option.bind (round_double (v / 1000)) (\<lambda>q. round_double (q * 100))"

text \<open>\<^verbatim>\<open>((hi - lo) / 1000) * 100\<close>: the subtraction is rounded too.\<close>

definition span_percent :: "real \<Rightarrow> real \<Rightarrow> real option" where
  "span_percent hi lo = Option.bind (round_double (hi - lo)) percent"

text \<open>The four percentages written into the style of one overlay box (\<open>top_pct\<close> is \<^verbatim>\<open>top\<close>).\<close>

record overlay =
  top_pct :: real
  left :: real
  height :: real
  width :: real

text \<open>
  The body of the \<^verbatim>\<open>annotations.map\<close> callback. The destructuring
  \<^verbatim>\<open>const [ymin, xmin, ymax, xmax] = ann.box_2d\<close> reads the first four numbers. The result
  is \<open>None\<close> when a percentage is not a finite number: with fewer than four numbers a
  variable is \<^verbatim>\<open>undefined\<close> and its percentage \<^verbatim>\<open>NaN\<close>, and an operation may overflow.
\<close>

fun box_overlay :: "real list \<Rightarrow> overlay option" where
  "box_overlay (ymin # xmin # ymax # xmax # rest) =
     (case (percent ymin, percent xmin, span_percent ymax ymin, span_percent xmax xmin) of
        (Some t, Some l, Some h, Some w) \<Rightarrow>
          Some \<lparr>top_pct = t, left = l, height = h, width = w\<rparr>
      | _ \<Rightarrow> None)"
| "box_overlay short = None"

text \<open>
  \<^verbatim>\<open>AnnotatedImage\<close>: no overlay at all when \<open>annotations\<close> is absent or empty, otherwise
  one overlay per annotation, in order.
\<close>

definition AnnotatedImage :: "Annotation list option \<Rightarrow> overlay option list" where
  "AnnotatedImage anns =
     (case anns of
        None \<Rightarrow> []
      | Some as \<Rightarrow> if length as = 0 then [] else map (\<lambda>ann. box_overlay (box_2d ann)) as)"

section \<open>Media capture (FileUpload component)\<close>

datatype file_outcome = Ignored | Rejected string | Reading File

definition size_limit :: nat where
  "size_limit = 20 * 1024 * 1024"

definition too_large_message :: string where
  "too_large_message = ''File size too large. Please upload files smaller than 20MB.''"

text \<open>
  \<^verbatim>\<open>handleFile\<close> up to \<^verbatim>\<open>reader.readAsDataURL(file)\<close>: a null file returns at once, an
  oversized one raises the alert and returns, any other starts the read.
\<close>

definition handleFile :: "File option \<Rightarrow> file_outcome" where
  "handleFile f =
     (case f of
        None \<Rightarrow> Ignored
      | Some fl \<Rightarrow> if file_size fl > size_limit then Rejected too_large_message else Reading fl)"

text \<open>\<^verbatim>\<open>s.split(c)\<close> for a one-character separator, and \<^verbatim>\<open>xs[i]\<close> on an array.\<close>

fun split_on :: "char \<Rightarrow> string \<Rightarrow> string list" where
  "split_on c [] = [[]]"
| "split_on c (x # xs) =
     (if x = c then [] # split_on c xs
      else case split_on c xs of
             [] \<Rightarrow> [[x]]
           | r # rs \<Rightarrow> (x # r) # rs)"

definition nth_opt :: "'a list \<Rightarrow> nat \<Rightarrow> 'a option" where
  "nth_opt xs i = (if i < length xs then Some (xs ! i) else None)"

text \<open>
  The \<^verbatim>\<open>reader.onload\<close> callback: \<open>res\<close> is \<^verbatim>\<open>e.target.result\<close>, \<open>url\<close> what
  \<^verbatim>\<open>URL.createObjectURL(file)\<close> returns. The result is the \<^verbatim>\<open>MediaFile\<close> given to
  \<^verbatim>\<open>setPreview\<close> and \<^verbatim>\<open>onFileSelect\<close>, if any.
\<close>

definition reader_onload :: "File \<Rightarrow> string option \<Rightarrow> string \<Rightarrow> MediaFile option" where
  "reader_onload fl res url =
     (if truthy_str res then
        Some \<lparr>media_file = fl, previewUrl = url,
              media_type = (if take 5 (file_type fl) = ''video'' then MediaVideo else MediaImage),
              base64 = nth_opt (split_on CHR '','' (the res)) 1\<rparr>
      else None)"

section \<open>Session state machine (the App component)\<close>

text \<open>The \<^verbatim>\<open>useState\<close> cells of \<^verbatim>\<open>App\<close>.\<close>

record session =
  status :: AppStatus
  result :: "FixItResponse option"
  error :: "string option"
  history :: "FixItResponse list"
  isSidebarOpen :: bool
  isDarkMode :: bool
  currentMedia :: "MediaFile option"
  detectedItems :: "DetectedItem list"

definition initial_session :: session where
  "initial_session =
     \<lparr>status = IDLE, result = None, error = None, history = [], isSidebarOpen = False,
      isDarkMode = True, currentMedia = None, detectedItems = []\<rparr>"

text \<open>A call of one of the four gateway operations, with its arguments.\<close>

datatype gateway_call =
    DetectItemsCall string string
  | AnalyzeMediaCall string string "string option"
  | GetChatResponseCall FixItResponse "ChatMessage list" string
  | GetSupportChatResponseCall "ChatMessage list" string

definition detection_failed_message :: string where
  "detection_failed_message = ''Failed to identify items in the image. Please try again.''"

definition analysis_failed_message :: string where
  "analysis_failed_message = ''Failed to generate repair guide. Please try again.''"

definition handleFileSelect :: "MediaFile \<Rightarrow> session \<Rightarrow> session" where
  "handleFileSelect media s =
     (if \<not> truthy_str (base64 media) then s
      else s\<lparr>currentMedia := Some media, status := UPLOADED, error := None\<rparr>)"

text \<open>\<^verbatim>\<open>currentMedia?.base64\<close>\<close>

definition media_base64 :: "MediaFile option \<Rightarrow> string option" where
  "media_base64 cm = (case cm of None \<Rightarrow> None | Some m \<Rightarrow> base64 m)"

text \<open>
  An \<^verbatim>\<open>async\<close> handler is two functions. The first runs from the call to the
  \<^verbatim>\<open>await\<close>: it returns \<open>None\<close> when the guard returns early, otherwise the updated
  state, the gateway call it issues, and the media its closure keeps for the
  continuation. The second runs when the promise settles: it takes the media of the
  closure (state read after the \<^verbatim>\<open>await\<close> is still the closure's), the outcome, and the
  state current at that moment, to which the setters apply.

  \<^verbatim>\<open>handleItemSelect\<close>: \<open>cm\<close> is the \<^verbatim>\<open>currentMedia\<close> of the render the handler belongs
  to, \<open>item\<close> is \<open>None\<close> for \<^verbatim>\<open>null\<close>.
\<close>

definition focus_of :: "DetectedItem \<Rightarrow> string" where
  "focus_of item = name item @ '' - '' @ description item"

definition handleItemSelect_begin ::
  "MediaFile option \<Rightarrow> DetectedItem option \<Rightarrow> session \<Rightarrow>
   (session \<times> gateway_call \<times> MediaFile) option" where
  "handleItemSelect_begin cm item s =
     (case cm of
        None \<Rightarrow> None
      | Some m \<Rightarrow>
          if \<not> truthy_str (base64 m) then None
          else Some (s\<lparr>status := ANALYZING\<rparr>,
                     AnalyzeMediaCall (or_else (base64 m) []) (file_type (media_file m))
                       (map_option focus_of item),
                     m))"

text \<open>
  \<open>uuid\<close> is what \<^verbatim>\<open>crypto.randomUUID()\<close> returns and \<open>now\<close> what \<^verbatim>\<open>Date.now()\<close> returns
  when the continuation runs.
\<close>

definition handleItemSelect_resume ::
  "MediaFile \<Rightarrow> js_error + FixItResponse \<Rightarrow> string \<Rightarrow> nat \<Rightarrow> session \<Rightarrow> session" where
  "handleItemSelect_resume m outcome uuid now s =
     (case outcome of
        Inr analysisResult \<Rightarrow>
          (let resultWithMeta =
                 analysisResult\<lparr>resp_id := Some uuid, timestamp := Some now,
                                imageUrl := Some (previewUrl m)\<rparr>
           in s\<lparr>result := Some resultWithMeta, history := resultWithMeta # history s,
                status := SUCCESS\<rparr>)
      | Inl err \<Rightarrow> s\<lparr>status := ERROR, error := Some analysis_failed_message\<rparr>)"

definition handleStartDetection_begin ::
  "session \<Rightarrow> (session \<times> gateway_call \<times> MediaFile) option" where
  "handleStartDetection_begin s =
     (case currentMedia s of
        None \<Rightarrow> None
      | Some m \<Rightarrow>
          if \<not> truthy_str (base64 m) then None
          else Some (s\<lparr>status := DETECTING, error := None\<rparr>,
                     DetectItemsCall (or_else (base64 m) []) (file_type (media_file m)),
                     m))"

text \<open>
  The continuation of \<^verbatim>\<open>handleStartDetection\<close>. With an empty list it calls
  \<^verbatim>\<open>handleItemSelect(null)\<close>, which runs to its own \<^verbatim>\<open>await\<close> inside the same closure;
  the second component is the call that issues, if any.
\<close>

definition handleStartDetection_resume ::
  "MediaFile \<Rightarrow> js_error + DetectedItem list \<Rightarrow> session \<Rightarrow>
   session \<times> (gateway_call \<times> MediaFile) option" where
  "handleStartDetection_resume m outcome s =
     (case outcome of
        Inr items \<Rightarrow>
          if length items > 0 then (s\<lparr>detectedItems := items, status := SELECTING\<rparr>, None)
          else (case handleItemSelect_begin (Some m) None s of
                  None \<Rightarrow> (s, None)
                | Some (s', c, m') \<Rightarrow> (s', Some (c, m')))
      | Inl err \<Rightarrow> (s\<lparr>status := ERROR, error := Some detection_failed_message\<rparr>, None))"

definition handleReset :: "session \<Rightarrow> session" where
  "handleReset s =
     s\<lparr>status := IDLE, result := None, error := None, currentMedia := None,
       detectedItems := []\<rparr>"

definition handleClearFile :: "session \<Rightarrow> session" where
  "handleClearFile s = s\<lparr>status := IDLE, currentMedia := None, detectedItems := []\<rparr>"

definition handleSelectAnother :: "session \<Rightarrow> session" where
  "handleSelectAnother s = s\<lparr>result := None, status := SELECTING\<rparr>"

definition handleHistorySelect :: "FixItResponse \<Rightarrow> session \<Rightarrow> session" where
  "handleHistorySelect item s = s\<lparr>result := Some item, status := SUCCESS, isSidebarOpen := False\<rparr>"

section \<open>The two chats\<close>

text \<open>
  \<^verbatim>\<open>!input.trim()\<close>: the input is blank when every character is white space. Characters
  are code units below 256; of those, JavaScript trims tab, line feed, vertical tab, form
  feed, carriage return, space and no-break space.
\<close>

definition js_whitespace :: "char \<Rightarrow> bool" where
  "js_whitespace c = (of_char c \<in> {9, 10, 11, 12, 13, 32, 160 :: nat})"

definition trim :: "string \<Rightarrow> string" where
  "trim s = rev (dropWhile js_whitespace (rev (dropWhile js_whitespace s)))"

text \<open>The state of the repair chat inside the result view.\<close>

record repair_chat =
  chatHistory :: "ChatMessage list"
  input :: string
  isChatLoading :: bool

definition fresh_repair_chat :: repair_chat where
  "fresh_repair_chat = \<lparr>chatHistory = [], input = [], isChatLoading = False\<rparr>"

definition repair_apology :: string where
  "repair_apology = ''Sorry, I encountered an error answering that.''"

text \<open>
  \<^verbatim>\<open>handleSendChat\<close> of the result view, split at its \<^verbatim>\<open>await\<close> like the handlers above.
  \<open>data\<close> is the result on display. The call receives the transcript of the closure,
  without the new message.
\<close>

definition handleSendChat_begin ::
  "FixItResponse \<Rightarrow> repair_chat \<Rightarrow> (repair_chat \<times> gateway_call) option" where
  "handleSendChat_begin data c =
     (if trim (input c) = [] \<or> isChatLoading c then None
      else Some (c\<lparr>chatHistory := chatHistory c @ [\<lparr>role = user, msg_text = input c\<rparr>],
                   input := [], isChatLoading := True\<rparr>,
                 GetChatResponseCall data (chatHistory c) (input c)))"

definition handleSendChat_resume :: "js_error + string \<Rightarrow> repair_chat \<Rightarrow> repair_chat" where
  "handleSendChat_resume outcome c =
     (case outcome of
        Inr responseText \<Rightarrow>
          c\<lparr>chatHistory := chatHistory c @ [\<lparr>role = model, msg_text = responseText\<rparr>],
            isChatLoading := False\<rparr>
      | Inl e \<Rightarrow>
          c\<lparr>chatHistory := chatHistory c @ [\<lparr>role = model, msg_text = repair_apology\<rparr>],
            isChatLoading := False\<rparr>)"

text \<open>The state of the support chat (\<^verbatim>\<open>SupportChat\<close>; \<open>support_input\<close> is its \<^verbatim>\<open>input\<close>).\<close>

record support_chat =
  isOpen :: bool
  messages :: "ChatMessage list"
  support_input :: string
  isLoading :: bool

definition support_welcome :: string where
  "support_welcome = ''Hi! I can help you use the FixIt AI app. What can I do for you?''"

definition initial_support_chat :: support_chat where
  "initial_support_chat =
     \<lparr>isOpen = False, messages = [\<lparr>role = model, msg_text = support_welcome\<rparr>],
      support_input = [], isLoading = False\<rparr>"

definition support_apology :: string where
  "support_apology = ''Sorry, I'm having trouble connecting. Please check your internet or try again.''"

definition handleSend_begin :: "support_chat \<Rightarrow> (support_chat \<times> gateway_call) option" where
  "handleSend_begin c =
     (if trim (support_input c) = [] \<or> isLoading c then None
      else Some (c\<lparr>messages := messages c @ [\<lparr>role = user, msg_text = support_input c\<rparr>],
                   support_input := [], isLoading := True\<rparr>,
                 GetSupportChatResponseCall (messages c) (support_input c)))"

definition handleSend_resume :: "js_error + string \<Rightarrow> support_chat \<Rightarrow> support_chat" where
  "handleSend_resume outcome c =
     (case outcome of
        Inr responseText \<Rightarrow>
          c\<lparr>messages := messages c @ [\<lparr>role = model, msg_text = responseText\<rparr>],
            isLoading := False\<rparr>
      | Inl e \<Rightarrow>
          c\<lparr>messages := messages c @ [\<lparr>role = model, msg_text = support_apology\<rparr>],
            isLoading := False\<rparr>)"

section \<open>The page as an event-driven machine\<close>

text \<open>
  The upload box keeps the preview. \<open>mounts\<close> counts how often the box has been mounted:
  it tells the instance on screen from an earlier one, whose setters do nothing.
\<close>

record upload_box =
  preview :: "MediaFile option"
  mounts :: nat

text \<open>
  A promise that has been created and has not settled yet: a file read (with the
  instance of the upload box that started it), a detection call or a diagnosis call
  (with the media their closure keeps).
\<close>

datatype pending_op = PendingRead File nat | PendingDetect MediaFile | PendingAnalyze MediaFile

text \<open>
  The page: the session, the promises in flight, the upload box, the two chats, and two
  logs that the code does not keep but that make its effects visible: every gateway call
  issued and every \<^verbatim>\<open>alert\<close> raised, oldest first.
\<close>

record app =
  sess :: session
  pending :: "pending_op list"
  calls :: "gateway_call list"
  alerts :: "string list"
  uploadBox :: upload_box
  repairChat :: repair_chat
  supportChat :: support_chat

definition initial_app :: app where
  "initial_app =
     \<lparr>sess = initial_session, pending = [], calls = [], alerts = [],
      uploadBox = \<lparr>preview = None, mounts = 0\<rparr>,
      repairChat = fresh_repair_chat, supportChat = initial_support_chat\<rparr>"

definition remove_nth :: "nat \<Rightarrow> 'a list \<Rightarrow> 'a list" where
  "remove_nth i xs = take i xs @ drop (Suc i) xs"

text \<open>
  What can happen next: the user acts on a control that is on screen, or a promise
  settles. The settle events carry what the outside world answers.
\<close>

datatype event =
    FileChosen File
  | ReadLoaded nat "string option" string
  | ClearFileClicked
  | AnalyzeClicked
  | DetectionSettled nat "js_error + DetectedItem list"
  | ItemClicked nat
  | AnalysisSettled nat "js_error + FixItResponse" string nat
  | ResetClicked
  | SelectAnotherClicked
  | HistoryClicked nat
  | SidebarOpened
  | SidebarClosed
  | DarkModeToggled
  | RepairInputChanged string
  | RepairSendClicked
  | RepairChatSettled "js_error + string"
  | SupportToggled
  | SupportInputChanged string
  | SupportSendClicked
  | SupportChatSettled "js_error + string"

text \<open>
  The upload box is rendered under
  \<^verbatim>\<open>status === AppStatus.IDLE || status === AppStatus.UPLOADED\<close>, the result view under
  \<^verbatim>\<open>status === AppStatus.SUCCESS && result\<close>.
\<close>

definition upload_shown :: "session \<Rightarrow> bool" where
  "upload_shown s = (status s = IDLE \<or> status s = UPLOADED)"

definition result_shown :: "session \<Rightarrow> bool" where
  "result_shown s = (status s = SUCCESS \<and> result s \<noteq> None)"

text \<open>
  When the page offers an event. A file arrives (picker, drop, paste or camera) while the
  upload box is on screen; its clear button belongs to the preview. The Analyze button is
  rendered in \<open>UPLOADED\<close>, the item list under
  \<^verbatim>\<open>status === AppStatus.SELECTING && currentMedia\<close>, the Other Problems button under
  \<^verbatim>\<open>detectedItems.length > 0\<close> in the result view; the header (reset, history, theme)
  and the support chat are always there. The history sidebar lists the entries of
  \<open>history\<close> and hands the one clicked to \<^verbatim>\<open>handleHistorySelect\<close>. A settle event needs its
  promise; a chat reply can only reach the chat instance that is waiting for it.
\<close>

fun enabled :: "event \<Rightarrow> app \<Rightarrow> bool" where
  "enabled (FileChosen fl) a = upload_shown (sess a)"
| "enabled (ReadLoaded i res url) a =
     (case nth_opt (pending a) i of Some (PendingRead fl g) \<Rightarrow> True | _ \<Rightarrow> False)"
| "enabled ClearFileClicked a = (upload_shown (sess a) \<and> preview (uploadBox a) \<noteq> None)"
| "enabled AnalyzeClicked a = (status (sess a) = UPLOADED)"
| "enabled (DetectionSettled i outcome) a =
     (case nth_opt (pending a) i of Some (PendingDetect m) \<Rightarrow> True | _ \<Rightarrow> False)"
| "enabled (ItemClicked k) a =
     (status (sess a) = SELECTING \<and> currentMedia (sess a) \<noteq> None \<and>
      k < length (detectedItems (sess a)))"
| "enabled (AnalysisSettled i outcome uuid now) a =
     (case nth_opt (pending a) i of Some (PendingAnalyze m) \<Rightarrow> True | _ \<Rightarrow> False)"
| "enabled ResetClicked a = True"
| "enabled SelectAnotherClicked a =
     (result_shown (sess a) \<and> length (detectedItems (sess a)) > 0)"
| "enabled (HistoryClicked k) a = (k < length (history (sess a)))"
| "enabled SidebarOpened a = True"
| "enabled SidebarClosed a = True"
| "enabled DarkModeToggled a = True"
| "enabled (RepairInputChanged t) a = result_shown (sess a)"
| "enabled RepairSendClicked a = result_shown (sess a)"
| "enabled (RepairChatSettled outcome) a =
     (result_shown (sess a) \<and> isChatLoading (repairChat a))"
| "enabled SupportToggled a = True"
| "enabled (SupportInputChanged t) a = True"
| "enabled SupportSendClicked a = True"
| "enabled (SupportChatSettled outcome) a = isLoading (supportChat a)"

text \<open>What the handler bound to the event does to the page.\<close>

fun fire :: "event \<Rightarrow> app \<Rightarrow> app" where
  "fire (FileChosen fl) a =
     (case handleFile (Some fl) of
        Ignored \<Rightarrow> a
      | Rejected msg \<Rightarrow> a\<lparr>alerts := alerts a @ [msg]\<rparr>
      | Reading f \<Rightarrow> a\<lparr>pending := pending a @ [PendingRead f (mounts (uploadBox a))]\<rparr>)"
| "fire (ReadLoaded i res url) a =
     (case nth_opt (pending a) i of
        Some (PendingRead fl g) \<Rightarrow>
          (case reader_onload fl res url of
             None \<Rightarrow> a\<lparr>pending := remove_nth i (pending a)\<rparr>
           | Some media \<Rightarrow>
               a\<lparr>sess := handleFileSelect media (sess a),
                 pending := remove_nth i (pending a),
                 uploadBox := (if g = mounts (uploadBox a)
                               then (uploadBox a)\<lparr>preview := Some media\<rparr>
                               else uploadBox a)\<rparr>)
      | _ \<Rightarrow> a)"
| "fire ClearFileClicked a =
     a\<lparr>sess := handleClearFile (sess a), uploadBox := (uploadBox a)\<lparr>preview := None\<rparr>\<rparr>"
| "fire AnalyzeClicked a =
     (case handleStartDetection_begin (sess a) of
        None \<Rightarrow> a
      | Some (s', c, m) \<Rightarrow>
          a\<lparr>sess := s', pending := pending a @ [PendingDetect m], calls := calls a @ [c]\<rparr>)"
| "fire (DetectionSettled i outcome) a =
     (case nth_opt (pending a) i of
        Some (PendingDetect m) \<Rightarrow>
          (case handleStartDetection_resume m outcome (sess a) of
             (s', None) \<Rightarrow> a\<lparr>sess := s', pending := remove_nth i (pending a)\<rparr>
           | (s', Some (c, m')) \<Rightarrow>
               a\<lparr>sess := s', pending := remove_nth i (pending a) @ [PendingAnalyze m'],
                 calls := calls a @ [c]\<rparr>)
      | _ \<Rightarrow> a)"
| "fire (ItemClicked k) a =
     (case handleItemSelect_begin (currentMedia (sess a))
             (nth_opt (detectedItems (sess a)) k) (sess a) of
        None \<Rightarrow> a
      | Some (s', c, m) \<Rightarrow>
          a\<lparr>sess := s', pending := pending a @ [PendingAnalyze m], calls := calls a @ [c]\<rparr>)"
| "fire (AnalysisSettled i outcome uuid now) a =
     (case nth_opt (pending a) i of
        Some (PendingAnalyze m) \<Rightarrow>
          a\<lparr>sess := handleItemSelect_resume m outcome uuid now (sess a),
            pending := remove_nth i (pending a)\<rparr>
      | _ \<Rightarrow> a)"
| "fire ResetClicked a = a\<lparr>sess := handleReset (sess a)\<rparr>"
| "fire SelectAnotherClicked a = a\<lparr>sess := handleSelectAnother (sess a)\<rparr>"
| "fire (HistoryClicked k) a =
     (case nth_opt (history (sess a)) k of
        None \<Rightarrow> a
      | Some item \<Rightarrow> a\<lparr>sess := handleHistorySelect item (sess a)\<rparr>)"
| "fire SidebarOpened a = a\<lparr>sess := (sess a)\<lparr>isSidebarOpen := True\<rparr>\<rparr>"
| "fire SidebarClosed a = a\<lparr>sess := (sess a)\<lparr>isSidebarOpen := False\<rparr>\<rparr>"
| "fire DarkModeToggled a = a\<lparr>sess := (sess a)\<lparr>isDarkMode := \<not> isDarkMode (sess a)\<rparr>\<rparr>"
| "fire (RepairInputChanged t) a = a\<lparr>repairChat := (repairChat a)\<lparr>input := t\<rparr>\<rparr>"
| "fire RepairSendClicked a =
     (case result (sess a) of
        None \<Rightarrow> a
      | Some data \<Rightarrow>
          (case handleSendChat_begin data (repairChat a) of
             None \<Rightarrow> a
           | Some (c', call) \<Rightarrow> a\<lparr>repairChat := c', calls := calls a @ [call]\<rparr>))"
| "fire (RepairChatSettled outcome) a =
     a\<lparr>repairChat := handleSendChat_resume outcome (repairChat a)\<rparr>"
| "fire SupportToggled a =
     a\<lparr>supportChat := (supportChat a)\<lparr>isOpen := \<not> isOpen (supportChat a)\<rparr>\<rparr>"
| "fire (SupportInputChanged t) a = a\<lparr>supportChat := (supportChat a)\<lparr>support_input := t\<rparr>\<rparr>"
| "fire SupportSendClicked a =
     (case handleSend_begin (supportChat a) of
        None \<Rightarrow> a
      | Some (c', call) \<Rightarrow> a\<lparr>supportChat := c', calls := calls a @ [call]\<rparr>)"
| "fire (SupportChatSettled outcome) a =
     a\<lparr>supportChat := handleSend_resume outcome (supportChat a)\<rparr>"

text \<open>
  Rendering after the update. A component that comes on screen starts from its initial
  state; while it is off screen its field keeps a value that nothing reads. The repair
  chat lives in the result view, and its effect on \<^verbatim>\<open>[data.id]\<close> empties transcript and
  input when the view stays mounted and the identifier of the result on display changes.
\<close>

definition sync_upload :: "session \<Rightarrow> session \<Rightarrow> upload_box \<Rightarrow> upload_box" where
  "sync_upload old new u =
     (if upload_shown new \<and> \<not> upload_shown old then \<lparr>preview = None, mounts = Suc (mounts u)\<rparr>
      else u)"

definition sync_repair :: "session \<Rightarrow> session \<Rightarrow> repair_chat \<Rightarrow> repair_chat" where
  "sync_repair old new c =
     (if result_shown new \<and> \<not> result_shown old then fresh_repair_chat
      else if result_shown new \<and> map_option resp_id (result old) \<noteq> map_option resp_id (result new)
      then c\<lparr>chatHistory := [], input := []\<rparr>
      else c)"

definition render :: "session \<Rightarrow> app \<Rightarrow> app" where
  "render old a =
     a\<lparr>uploadBox := sync_upload old (sess a) (uploadBox a),
       repairChat := sync_repair old (sess a) (repairChat a)\<rparr>"

definition app_step :: "event \<Rightarrow> app \<Rightarrow> app option" where
  "app_step e a = (if enabled e a then Some (render (sess a) (fire e a)) else None)"

fun run :: "event list \<Rightarrow> app \<Rightarrow> app option" where
  "run [] a = Some a"
| "run (e # es) a = (case app_step e a of None \<Rightarrow> None | Some a' \<Rightarrow> run es a')"

section \<open>Sample data for the examples\<close>

definition sample_file :: File where
  "sample_file = \<lparr>file_name = ''sink.jpg'', file_type = ''image/jpeg'', file_size = 2097152\<rparr>"

definition big_file :: File where
  "big_file = \<lparr>file_name = ''clip.mp4'', file_type = ''video/mp4'', file_size = 26214400\<rparr>"

definition sample_data_url :: string where
  "sample_data_url = ''data:image/jpeg;base64,QUJD''"

definition sample_media :: MediaFile where
  "sample_media =
     \<lparr>media_file = sample_file, previewUrl = ''blob:1'', media_type = MediaImage,
      base64 = Some ''QUJD''\<rparr>"

text \<open>A diagnosis as the service might send it, with an identifier of its own.\<close>

definition sample_analysis :: FixItResponse where
  "sample_analysis =
     \<lparr>resp_id = Some ''from-the-model'', timestamp = Some 7, imageUrl = None,
      title = ''Dripping faucet'', problemDescription = ''The faucet drips.'',
      rootCause = ''Worn washer'', safetyWarnings = [''Shut off the water.''],
      toolsNeeded = [''Wrench''],
      steps = [\<lparr>step = 1, instruction = ''Close the valve'', detail = ''Under the sink''\<rparr>,
               \<lparr>step = 2, instruction = ''Replace the washer'', detail = ''Same size''\<rparr>],
      visualGuide = ''Look at the [Handle]'',
      annotations = Some [\<lparr>label = ''Leak'', box_2d = [100, 200, 300, 400]\<rparr>]\<rparr>"

text \<open>
  Services for the detection examples: one answers without text, one with \<^verbatim>\<open>{}\<close>, one
  with a list of one item, one fails.
\<close>

definition silent_service :: "gen_request \<Rightarrow> js_error + response" where
  "silent_service req = Inr \<lparr>resp_text = None\<rparr>"

definition bare_object_service :: "gen_request \<Rightarrow> js_error + response" where
  "bare_object_service req = Inr \<lparr>resp_text = Some ''{}''\<rparr>"

definition faucet_service :: "gen_request \<Rightarrow> js_error + response" where
  "faucet_service req = Inr \<lparr>resp_text = Some faucet_document\<rparr>"

definition failing_service :: "gen_request \<Rightarrow> js_error + response" where
  "failing_service req = Inl (ServiceFailure ''timeout'')"

text \<open>
  A first diagnosis from capture to result, with a detection that finds nothing; and the
  same followed by a reset and a file whose read is still under way when the user opens
  an entry of the history, and then by one more file.
\<close>

definition diagnosis_trace :: "event list" where
  "diagnosis_trace =
     [FileChosen sample_file, ReadLoaded 0 (Some sample_data_url) ''blob:1'', AnalyzeClicked,
      DetectionSettled 0 (Inr []), AnalysisSettled 0 (Inr sample_analysis) ''uuid-1'' 1000]"

definition stale_read_trace :: "event list" where
  "stale_read_trace =
     diagnosis_trace @
     [ResetClicked, FileChosen sample_file, HistoryClicked 0,
      ReadLoaded 0 (Some sample_data_url) ''blob:2'',
      FileChosen sample_file, ReadLoaded 0 (Some sample_data_url) ''blob:3'']"

text \<open>
  The comparison of the two clearing operations, as the specification words it: the same
  session after \<^verbatim>\<open>handleClearFile\<close> as after \<^verbatim>\<open>handleReset\<close>; and the same on the page,
  for the two buttons.
\<close>

definition clear_equals_reset :: "session \<Rightarrow> bool" where
  "clear_equals_reset s = (handleClearFile s = handleReset s)"

definition clear_button_equals_reset_button :: "app \<Rightarrow> bool" where
  "clear_button_equals_reset_button a =
     (map_option sess (app_step ClearFileClicked a) = map_option sess (app_step ResetClicked a))"

text \<open>
  Three pages for the examples: a file has been captured; its diagnosis is under way; a
  result is on display while the user is typing into both chats.
\<close>

definition sample_uploaded :: app where
  "sample_uploaded =
     initial_app\<lparr>sess := initial_session\<lparr>status := UPLOADED, currentMedia := Some sample_media\<rparr>,
                 uploadBox := \<lparr>preview = Some sample_media, mounts = 0\<rparr>\<rparr>"

definition sample_analyzing :: app where
  "sample_analyzing =
     sample_uploaded\<lparr>sess := (sess sample_uploaded)\<lparr>status := ANALYZING\<rparr>,
        pending := [PendingAnalyze sample_media],
        calls := [DetectItemsCall ''QUJD'' ''image/jpeg'',
                  AnalyzeMediaCall ''QUJD'' ''image/jpeg'' None]\<rparr>"

definition sample_asking :: app where
  "sample_asking =
     initial_app\<lparr>sess := initial_session\<lparr>status := SUCCESS, result := Some sample_analysis,
                                          history := [sample_analysis]\<rparr>,
       repairChat := fresh_repair_chat\<lparr>input := ''Which wrench?''\<rparr>,
       supportChat := initial_support_chat\<lparr>support_input := ''How do I upload?''\<rparr>\<rparr>"

section \<open>Unfolding rules and basic facts\<close>

lemmas handler_defs = handleFile_def reader_onload_def handleFileSelect_def handleItemSelect_begin_def
  handleItemSelect_resume_def handleStartDetection_begin_def handleStartDetection_resume_def
  handleReset_def handleClearFile_def handleSelectAnother_def handleHistorySelect_def
  handleSendChat_begin_def handleSendChat_resume_def handleSend_begin_def handleSend_resume_def

lemmas machine_defs = app_step_def render_def sync_upload_def sync_repair_def upload_shown_def
  result_shown_def nth_opt_def remove_nth_def size_limit_def Let_def

lemmas sample_defs = sample_file_def sample_data_url_def sample_media_def sample_analysis_def
  initial_app_def initial_session_def fresh_repair_chat_def initial_support_chat_def big_file_def
  diagnosis_trace_def stale_read_trace_def

lemmas service_defs = sample_JSON_parse_def silent_service_def bare_object_service_def
  failing_service_def faucet_service_def faucet_document_def detection_default_text_def

text \<open>Rendering touches the upload box and the repair chat only.\<close>

lemma sess_render [simp]: "sess (render old a) = sess a"
  by (simp add: render_def)

lemma pending_render [simp]: "pending (render old a) = pending a"
  by (simp add: render_def)

lemma calls_render [simp]: "calls (render old a) = calls a"
  by (simp add: render_def)

lemma alerts_render [simp]: "alerts (render old a) = alerts a"
  by (simp add: render_def)

lemma supportChat_render [simp]: "supportChat (render old a) = supportChat a"
  by (simp add: render_def)

lemma render_same_session: "sess a = old \<Longrightarrow> render old a = a"
  by (simp add: render_def sync_upload_def sync_repair_def)

text \<open>No event removes or rewrites an entry of the history: the old log stays as a suffix.\<close>

lemma fire_history: "\<exists>pre. history (sess (fire e a)) = pre @ history (sess a)"
  by (cases e)
     (simp_all add: handler_defs Let_def
        split: option.splits pending_op.splits sum.splits prod.splits file_outcome.splits)

lemma app_step_history:
  assumes "app_step e a = Some a'"
  shows "\<exists>pre. history (sess a') = pre @ history (sess a)"
proof -
  from assms have "a' = render (sess a) (fire e a)"
    by (simp add: app_step_def split: if_splits)
  then show ?thesis
    using fire_history [of e a] by simp
qed

lemma run_history:
  "run es a = Some a' \<Longrightarrow> \<exists>pre. history (sess a') = pre @ history (sess a)"
proof (induction es arbitrary: a)
  case Nil
  then show ?case by simp
next
  case (Cons e es)
  then obtain a1 where s1: "app_step e a = Some a1" and r: "run es a1 = Some a'"
    by (auto split: option.splits)
  from app_step_history [OF s1] obtain p1 where "history (sess a1) = p1 @ history (sess a)" ..
  moreover from Cons.IH [OF r] obtain p2 where "history (sess a') = p2 @ history (sess a1)" ..
  ultimately have "history (sess a') = (p2 @ p1) @ history (sess a)" by simp
  then show ?case ..
qed

lemma trim_nonblank: "trim ''Which wrench?'' \<noteq> []" "trim ''How do I upload?'' \<noteq> []"
  by (simp_all add: trim_def js_whitespace_def)

section \<open>Detection never returns a partial list (C1)\<close>

text \<open>
  Claim C1 says that \<open>detectItems\<close> fails whenever the response is malformed, an absent
  response text and an absent \<^verbatim>\<open>items\<close> field included. The code does not: with a key
  configured, a service that answers without text, or with the document \<^verbatim>\<open>{}\<close>, makes
  \<open>detectItems\<close> return the empty list.
\<close>

theorem detectItems_malformed_counterexample:
  "detectItems sample_JSON_parse silent_service (Some ''key'') ''QUJD'' ''image/jpeg'' =
     Inr (JArray []) \<and>
   detectItems sample_JSON_parse bare_object_service (Some ''key'') ''QUJD'' ''image/jpeg'' =
     Inr (JArray [])"
  by (simp add: detectItems_def service_defs)

text \<open>
  Claim C1 as amended. Without a key \<open>detectItems\<close> fails. With a key it rethrows the
  error of the service call, rethrows the error of \<^verbatim>\<open>JSON.parse\<close>, and fails with a
  type error when the document is \<^verbatim>\<open>null\<close>. An object whose \<^verbatim>\<open>items\<close> value is truthy
  has that value returned as it is. An absent or empty response text (the default
  document is parsed instead), an object without \<^verbatim>\<open>items\<close> or with a falsy one, and a
  document that is no object yield the empty list. So whatever is returned is the empty
  list or the whole \<^verbatim>\<open>items\<close> value of the parsed object, never a part of it.
\<close>

theorem detectItems_fails_or_defaults:
  "(\<not> truthy_str apiKey \<longrightarrow>
      detectItems JSON_parse generateContent apiKey base64Data mimeType =
        Inl (Error ''API Key not found'')) \<and>
   (truthy_str apiKey \<longrightarrow>
      (\<forall>e. generateContent (detection_request base64Data mimeType) = Inl e \<longrightarrow>
           detectItems JSON_parse generateContent apiKey base64Data mimeType = Inl e) \<and>
      (\<forall>r e. generateContent (detection_request base64Data mimeType) = Inr r \<and>
             JSON_parse (or_else (resp_text r) detection_default_text) = Inl e \<longrightarrow>
           detectItems JSON_parse generateContent apiKey base64Data mimeType = Inl e) \<and>
      (\<forall>r. generateContent (detection_request base64Data mimeType) = Inr r \<and>
           JSON_parse (or_else (resp_text r) detection_default_text) = Inr JNull \<longrightarrow>
           detectItems JSON_parse generateContent apiKey base64Data mimeType = Inl TypeError) \<and>
      (\<forall>r. generateContent (detection_request base64Data mimeType) = Inr r \<and>
           \<not> truthy_str (resp_text r) \<and>
           JSON_parse detection_default_text = Inr (JObject [(''items'', JArray [])]) \<longrightarrow>
           detectItems JSON_parse generateContent apiKey base64Data mimeType = Inr (JArray [])) \<and>
      (\<forall>r fs. generateContent (detection_request base64Data mimeType) = Inr r \<and>
           JSON_parse (or_else (resp_text r) detection_default_text) = Inr (JObject fs) \<and>
           map_of fs ''items'' = None \<longrightarrow>
           detectItems JSON_parse generateContent apiKey base64Data mimeType = Inr (JArray [])) \<and>
      (\<forall>r fs v. generateContent (detection_request base64Data mimeType) = Inr r \<and>
           JSON_parse (or_else (resp_text r) detection_default_text) = Inr (JObject fs) \<and>
           map_of fs ''items'' = Some v \<and> truthy v \<longrightarrow>
           detectItems JSON_parse generateContent apiKey base64Data mimeType = Inr v) \<and>
      (\<forall>r fs v. generateContent (detection_request base64Data mimeType) = Inr r \<and>
           JSON_parse (or_else (resp_text r) detection_default_text) = Inr (JObject fs) \<and>
           map_of fs ''items'' = Some v \<and> \<not> truthy v \<longrightarrow>
           detectItems JSON_parse generateContent apiKey base64Data mimeType = Inr (JArray [])) \<and>
      (\<forall>r p. generateContent (detection_request base64Data mimeType) = Inr r \<and>
           JSON_parse (or_else (resp_text r) detection_default_text) = Inr p \<and>
           prop_items p = Inr None \<longrightarrow>
           detectItems JSON_parse generateContent apiKey base64Data mimeType = Inr (JArray [])) \<and>
      (\<forall>v. detectItems JSON_parse generateContent apiKey base64Data mimeType = Inr v \<longrightarrow>
           v = JArray [] \<or>
           (\<exists>r fs. generateContent (detection_request base64Data mimeType) = Inr r \<and>
                JSON_parse (or_else (resp_text r) detection_default_text) = Inr (JObject fs) \<and>
                map_of fs ''items'' = Some v \<and> truthy v)))"
proof (intro conjI impI allI)
  assume "\<not> truthy_str apiKey"
  then show "detectItems JSON_parse generateContent apiKey base64Data mimeType =
        Inl (Error ''API Key not found'')"
    by (simp add: detectItems_def)
next
  fix e
  assume "truthy_str apiKey" "generateContent (detection_request base64Data mimeType) = Inl e"
  then show "detectItems JSON_parse generateContent apiKey base64Data mimeType = Inl e"
    by (simp add: detectItems_def)
next
  fix r e
  assume "truthy_str apiKey" "generateContent (detection_request base64Data mimeType) = Inr r \<and>
             JSON_parse (or_else (resp_text r) detection_default_text) = Inl e"
  then show "detectItems JSON_parse generateContent apiKey base64Data mimeType = Inl e"
    by (simp add: detectItems_def)
next
  fix r
  assume "truthy_str apiKey" "generateContent (detection_request base64Data mimeType) = Inr r \<and>
           JSON_parse (or_else (resp_text r) detection_default_text) = Inr JNull"
  then show "detectItems JSON_parse generateContent apiKey base64Data mimeType = Inl TypeError"
    by (simp add: detectItems_def)
next
  fix r
  assume "truthy_str apiKey" "generateContent (detection_request base64Data mimeType) = Inr r \<and>
           \<not> truthy_str (resp_text r) \<and>
           JSON_parse detection_default_text = Inr (JObject [(''items'', JArray [])])"
  then show "detectItems JSON_parse generateContent apiKey base64Data mimeType = Inr (JArray [])"
    by (cases "resp_text r") (simp_all add: detectItems_def)
next
  fix r fs
  assume "truthy_str apiKey" "generateContent (detection_request base64Data mimeType) = Inr r \<and>
           JSON_parse (or_else (resp_text r) detection_default_text) = Inr (JObject fs) \<and>
           map_of fs ''items'' = None"
  then show "detectItems JSON_parse generateContent apiKey base64Data mimeType = Inr (JArray [])"
    by (simp add: detectItems_def)
next
  fix r fs v
  assume "truthy_str apiKey" "generateContent (detection_request base64Data mimeType) = Inr r \<and>
           JSON_parse (or_else (resp_text r) detection_default_text) = Inr (JObject fs) \<and>
           map_of fs ''items'' = Some v \<and> truthy v"
  then show "detectItems JSON_parse generateContent apiKey base64Data mimeType = Inr v"
    by (simp add: detectItems_def)
next
  fix r fs v
  assume "truthy_str apiKey" "generateContent (detection_request base64Data mimeType) = Inr r \<and>
           JSON_parse (or_else (resp_text r) detection_default_text) = Inr (JObject fs) \<and>
           map_of fs ''items'' = Some v \<and> \<not> truthy v"
  then show "detectItems JSON_parse generateContent apiKey base64Data mimeType = Inr (JArray [])"
    by (simp add: detectItems_def)
next
  fix r p
  assume "truthy_str apiKey" "generateContent (detection_request base64Data mimeType) = Inr r \<and>
           JSON_parse (or_else (resp_text r) detection_default_text) = Inr p \<and>
           prop_items p = Inr None"
  then show "detectItems JSON_parse generateContent apiKey base64Data mimeType = Inr (JArray [])"
    by (simp add: detectItems_def)
next
  fix v
  assume k: "truthy_str apiKey"
    and out: "detectItems JSON_parse generateContent apiKey base64Data mimeType = Inr v"
  show "v = JArray [] \<or>
           (\<exists>r fs. generateContent (detection_request base64Data mimeType) = Inr r \<and>
                JSON_parse (or_else (resp_text r) detection_default_text) = Inr (JObject fs) \<and>
                map_of fs ''items'' = Some v \<and> truthy v)"
  proof (cases "generateContent (detection_request base64Data mimeType)")
    case (Inl e)
    with k out show ?thesis by (simp add: detectItems_def)
  next
    case (Inr r)
    show ?thesis
    proof (cases "JSON_parse (or_else (resp_text r) detection_default_text)")
      case (Inl e)
      with k out Inr show ?thesis by (simp add: detectItems_def)
    next
      case p: (Inr parsed)
      show ?thesis
      proof (cases parsed)
        case (JObject fs)
        with k out Inr p show ?thesis
          by (cases "map_of fs ''items''") (auto simp: detectItems_def split: if_splits)
      qed (use k out Inr p in \<open>auto simp: detectItems_def\<close>)
    qed
  qed
qed

text \<open>
  C1 at concrete calls: a service that times out, one that answers without text, one
  that answers with a list of one item, and a missing key.
\<close>

theorem detectItems_fails_or_defaults_witness:
  "detectItems sample_JSON_parse failing_service (Some ''key'') ''QUJD'' ''image/jpeg'' =
     Inl (ServiceFailure ''timeout'') \<and>
   detectItems sample_JSON_parse silent_service (Some ''key'') ''QUJD'' ''image/jpeg'' =
     Inr (JArray []) \<and>
   detectItems sample_JSON_parse faucet_service (Some ''key'') ''QUJD'' ''image/jpeg'' =
     Inr faucet_items \<and>
   detectItems sample_JSON_parse silent_service None ''QUJD'' ''image/jpeg'' =
     Inl (Error ''API Key not found'')"
proof -
  have parsed: "sample_JSON_parse (or_else (Some faucet_document) detection_default_text) =
      Inr (JObject [(''items'', faucet_items)])"
    by (simp add: service_defs)
  have items: "map_of [(''items'', faucet_items)] ''items'' = Some faucet_items"
    "truthy faucet_items"
    by (simp_all add: faucet_items_def)
  have "faucet_service (detection_request ''QUJD'' ''image/jpeg'') =
      Inr \<lparr>resp_text = Some faucet_document\<rparr>"
    by (simp add: faucet_service_def)
  with parsed items
    detectItems_fails_or_defaults [of "Some ''key''" sample_JSON_parse faucet_service "''QUJD''"
      "''image/jpeg''"]
  have "detectItems sample_JSON_parse faucet_service (Some ''key'') ''QUJD'' ''image/jpeg'' =
     Inr faucet_items"
    by simp
  then show ?thesis
    using detectItems_fails_or_defaults [of "Some ''key''" sample_JSON_parse failing_service
        "''QUJD''" "''image/jpeg''"]
      detectItems_fails_or_defaults [of "Some ''key''" sample_JSON_parse silent_service
        "''QUJD''" "''image/jpeg''"]
      detectItems_fails_or_defaults [of None sample_JSON_parse silent_service "''QUJD''"
        "''image/jpeg''"]
    by (simp add: service_defs)
qed

section \<open>An empty detection goes straight to the unfocused diagnosis (C2)\<close>

text \<open>
  A detection that settles with an empty list sets \<open>ANALYZING\<close> and issues the call that
  \<^verbatim>\<open>handleItemSelect(null)\<close> issues, whatever has happened to the page in between.
\<close>

lemma empty_detection_settles_into_analysis:
  assumes "nth_opt (pending a) i = Some (PendingDetect m)" and "truthy_str (base64 m)"
  shows "\<exists>a'. app_step (DetectionSettled i (Inr [])) a = Some a' \<and>
           status (sess a') = ANALYZING \<and>
           detectedItems (sess a') = detectedItems (sess a) \<and>
           calls a' =
             calls a @ [AnalyzeMediaCall (or_else (base64 m) []) (file_type (media_file m)) None]"
proof -
  have r: "handleStartDetection_resume m (Inr []) (sess a) =
           ((sess a)\<lparr>status := ANALYZING\<rparr>,
            Some (AnalyzeMediaCall (or_else (base64 m) []) (file_type (media_file m)) None, m))"
    using assms(2) by (simp add: handleStartDetection_resume_def handleItemSelect_begin_def)
  from assms(1) have "enabled (DetectionSettled i (Inr [])) a"
    by simp
  with assms(1) r show ?thesis
    by (simp add: app_step_def)
qed

text \<open>
  Claim C2. From a page in \<open>UPLOADED\<close> whose media has a non-empty payload \<open>b\<close>, the
  Analyze button followed by a detection that succeeds with the empty list passes
  through \<open>DETECTING\<close> into \<open>ANALYZING\<close>, never \<open>SELECTING\<close>; the detected items are left as
  they were; the two calls issued are the detection and a diagnosis with the same payload
  and media type and no focus; and that diagnosis call is the one selecting no item
  (\<^verbatim>\<open>handleItemSelect(null)\<close>) issues from the captured state.
\<close>

theorem empty_detection_starts_unfocused_diagnosis:
  assumes "status (sess a) = UPLOADED" and "currentMedia (sess a) = Some m"
    and "base64 m = Some b" and "b \<noteq> []"
  shows "\<exists>a1 a2.
           app_step AnalyzeClicked a = Some a1 \<and> status (sess a1) = DETECTING \<and>
           app_step (DetectionSettled (length (pending a)) (Inr [])) a1 = Some a2 \<and>
           status (sess a2) = ANALYZING \<and>
           detectedItems (sess a2) = detectedItems (sess a) \<and>
           calls a2 = calls a @ [DetectItemsCall b (file_type (media_file m)),
                                 AnalyzeMediaCall b (file_type (media_file m)) None] \<and>
           pending a2 = pending a @ [PendingAnalyze m] \<and>
           map_option (fst \<circ> snd) (handleItemSelect_begin (currentMedia (sess a)) None (sess a)) =
             Some (AnalyzeMediaCall b (file_type (media_file m)) None)"
proof -
  define a1 where "a1 = render (sess a) (fire AnalyzeClicked a)"
  have s1: "app_step AnalyzeClicked a = Some a1"
    using assms(1) by (simp add: app_step_def a1_def)
  have b1: "handleStartDetection_begin (sess a) =
              Some ((sess a)\<lparr>status := DETECTING, error := None\<rparr>,
                    DetectItemsCall b (file_type (media_file m)), m)"
    using assms(2-4) by (simp add: handleStartDetection_begin_def)
  have f1: "sess a1 = (sess a)\<lparr>status := DETECTING, error := None\<rparr>"
    "pending a1 = pending a @ [PendingDetect m]"
    "calls a1 = calls a @ [DetectItemsCall b (file_type (media_file m))]"
    by (simp_all add: a1_def b1)
  have n: "nth_opt (pending a1) (length (pending a)) = Some (PendingDetect m)"
    by (simp add: f1 nth_opt_def)
  define a2 where "a2 = render (sess a1) (fire (DetectionSettled (length (pending a)) (Inr [])) a1)"
  have s2: "app_step (DetectionSettled (length (pending a)) (Inr [])) a1 = Some a2"
    using n by (simp add: app_step_def a2_def)
  have r: "handleStartDetection_resume m (Inr []) (sess a1) =
             ((sess a1)\<lparr>status := ANALYZING\<rparr>,
              Some (AnalyzeMediaCall b (file_type (media_file m)) None, m))"
    using assms(3,4) by (simp add: handleStartDetection_resume_def handleItemSelect_begin_def)
  have f2: "sess a2 = (sess a1)\<lparr>status := ANALYZING\<rparr>"
    "pending a2 = pending a @ [PendingAnalyze m]"
    "calls a2 = calls a @ [DetectItemsCall b (file_type (media_file m)),
                           AnalyzeMediaCall b (file_type (media_file m)) None]"
    using n r by (simp_all add: a2_def f1 remove_nth_def)
  have d: "map_option (fst \<circ> snd) (handleItemSelect_begin (currentMedia (sess a)) None (sess a)) =
             Some (AnalyzeMediaCall b (file_type (media_file m)) None)"
    using assms(2-4) by (simp add: handleItemSelect_begin_def)
  from s1 s2 f1 f2 d show ?thesis
    by (intro exI [of _ a1] exI [of _ a2]) simp
qed

text \<open>C2 on the captured sample page.\<close>

theorem empty_detection_starts_unfocused_diagnosis_witness:
  "status (sess sample_uploaded) = UPLOADED \<and>
   currentMedia (sess sample_uploaded) = Some sample_media \<and>
   base64 sample_media = Some ''QUJD'' \<and>
   run [AnalyzeClicked, DetectionSettled 0 (Inr [])] sample_uploaded = Some sample_analyzing"
proof -
  have h: "status (sess sample_uploaded) = UPLOADED"
    "currentMedia (sess sample_uploaded) = Some sample_media"
    "base64 sample_media = Some ''QUJD''" "''QUJD'' \<noteq> []"
    by (simp_all add: sample_uploaded_def sample_media_def)
  have p: "pending sample_uploaded = []"
    by (simp add: sample_uploaded_def initial_app_def)
  from empty_detection_starts_unfocused_diagnosis [OF h] obtain a1 a2 where
    "app_step AnalyzeClicked sample_uploaded = Some a1"
    "app_step (DetectionSettled (length (pending sample_uploaded)) (Inr [])) a1 = Some a2"
    "status (sess a2) = ANALYZING"
    by blast
  then have "run [AnalyzeClicked, DetectionSettled 0 (Inr [])] sample_uploaded = Some a2"
    by (simp add: p)
  moreover have "run [AnalyzeClicked, DetectionSettled 0 (Inr [])] sample_uploaded =
      Some sample_analyzing"
    by (simp add: handler_defs machine_defs sample_defs sample_uploaded_def sample_analyzing_def)
  ultimately show ?thesis using h by simp
qed

section \<open>Clearing the capture against resetting (C3)\<close>

text \<open>
  Claim C3 says that clearing the capture and resetting end in the same session from
  every reachable state. They do not. After a first diagnosis the result is set, and
  \<^verbatim>\<open>handleClearFile\<close> keeps it where \<^verbatim>\<open>handleReset\<close> drops it. The clear button itself can
  be on screen in such a state: a file read that is still under way when the user opens
  a history entry brings the page back to \<open>UPLOADED\<close> with the old result in place, and
  after one more file the preview with its clear button is shown.
\<close>

theorem clearFile_differs_from_reset_counterexample:
  "map_option (clear_equals_reset \<circ> sess) (run diagnosis_trace initial_app) = Some False \<and>
   map_option (enabled ClearFileClicked) (run stale_read_trace initial_app) = Some True \<and>
   map_option clear_button_equals_reset_button (run stale_read_trace initial_app) = Some False"
  by (simp add: handler_defs machine_defs sample_defs clear_equals_reset_def
      clear_button_equals_reset_button_def)

text \<open>
  Claim C3 as amended. In every state the two operations agree on status, captured media,
  detected items and history; clearing leaves the current result and the error as they
  were; so the two sessions are equal exactly when there is no current result and no
  error.
\<close>

theorem clearFile_vs_reset:
  "status (handleClearFile s) = status (handleReset s) \<and>
   currentMedia (handleClearFile s) = currentMedia (handleReset s) \<and>
   detectedItems (handleClearFile s) = detectedItems (handleReset s) \<and>
   history (handleClearFile s) = history (handleReset s) \<and>
   result (handleClearFile s) = result s \<and>
   error (handleClearFile s) = error s \<and>
   (handleClearFile s = handleReset s) = (result s = None \<and> error s = None)"
proof -
  have "(handleClearFile s = handleReset s) = (result s = None \<and> error s = None)"
  proof
    assume eq: "handleClearFile s = handleReset s"
    then have "result (handleClearFile s) = result (handleReset s)"
      and "error (handleClearFile s) = error (handleReset s)"
      by simp_all
    then show "result s = None \<and> error s = None"
      by (simp add: handleClearFile_def handleReset_def)
  next
    assume "result s = None \<and> error s = None"
    then show "handleClearFile s = handleReset s"
      by (simp add: handleClearFile_def handleReset_def)
  qed
  then show ?thesis
    by (simp add: handleClearFile_def handleReset_def)
qed

text \<open>C3 at the initial session, and at one with a result.\<close>

theorem clearFile_vs_reset_witness:
  "clear_equals_reset initial_session \<and> \<not> clear_equals_reset (initial_session\<lparr>result := Some sample_analysis\<rparr>)"
  using clearFile_vs_reset [of initial_session] clearFile_vs_reset [of "initial_session\<lparr>result := Some sample_analysis\<rparr>"]
  by (simp add: clear_equals_reset_def initial_session_def)

section \<open>Reset (C4)\<close>

text \<open>
  Claim C4. Reset is offered in every state of the page and ends in \<open>IDLE\<close> with captured
  media, detected items, current result and error cleared; the history log (and the
  sidebar and theme flags) are exactly as before.
\<close>

theorem reset_clears_and_keeps_history:
  "map_option sess (app_step ResetClicked a) =
     Some \<lparr>status = IDLE, result = None, error = None, history = history (sess a),
           isSidebarOpen = isSidebarOpen (sess a), isDarkMode = isDarkMode (sess a),
           currentMedia = None, detectedItems = []\<rparr> \<and>
   status (handleReset s) = IDLE \<and> currentMedia (handleReset s) = None \<and>
   detectedItems (handleReset s) = [] \<and> result (handleReset s) = None \<and>
   error (handleReset s) = None \<and> history (handleReset s) = history s"
  by (simp add: app_step_def handleReset_def)

text \<open>C4 on the sample page with a result and one history entry.\<close>

theorem reset_clears_and_keeps_history_witness:
  "map_option (status \<circ> sess) (app_step ResetClicked sample_asking) = Some IDLE \<and>
   map_option (history \<circ> sess) (app_step ResetClicked sample_asking) = Some [sample_analysis]"
proof -
  have "history (sess sample_asking) = [sample_analysis]"
    by (simp add: sample_asking_def)
  with reset_clears_and_keeps_history [of sample_asking] show ?thesis
    by (cases "app_step ResetClicked sample_asking") auto
qed

section \<open>A successful diagnosis (C5)\<close>

text \<open>
  Claim C5. When a diagnosis call settles with a result, the stored result is the
  response with its identifier replaced by what \<^verbatim>\<open>crypto.randomUUID()\<close> returned and its
  timestamp by what \<^verbatim>\<open>Date.now()\<close> returned: an identifier or timestamp in the response
  changes nothing. It becomes the current result, the status becomes \<open>SUCCESS\<close>, and the
  history is the new result followed by the old history. When the fresh identifier is
  not in use, the identifiers of the log stay pairwise distinct.
\<close>

theorem diagnosis_success_stamps_and_prepends:
  assumes "nth_opt (pending a) i = Some (PendingAnalyze m)"
  shows "\<exists>a' r.
           app_step (AnalysisSettled i (Inr analysisResult) uuid now) a = Some a' \<and>
           r = analysisResult\<lparr>resp_id := Some uuid, timestamp := Some now,
                              imageUrl := Some (previewUrl m)\<rparr> \<and>
           resp_id r = Some uuid \<and> timestamp r = Some now \<and>
           result (sess a') = Some r \<and>
           status (sess a') = SUCCESS \<and>
           history (sess a') = r # history (sess a) \<and>
           (\<forall>i' t'. handleItemSelect_resume m
                       (Inr (analysisResult\<lparr>resp_id := i', timestamp := t'\<rparr>)) uuid now (sess a) =
                    handleItemSelect_resume m (Inr analysisResult) uuid now (sess a)) \<and>
           (distinct (map resp_id (history (sess a))) \<and>
            Some uuid \<notin> set (map resp_id (history (sess a))) \<longrightarrow>
              distinct (map resp_id (history (sess a'))))"
proof -
  define a' where "a' = render (sess a) (fire (AnalysisSettled i (Inr analysisResult) uuid now) a)"
  define r where "r = analysisResult\<lparr>resp_id := Some uuid, timestamp := Some now,
                              imageUrl := Some (previewUrl m)\<rparr>"
  have s: "app_step (AnalysisSettled i (Inr analysisResult) uuid now) a = Some a'"
    using assms by (simp add: app_step_def a'_def)
  have f: "sess a' = (sess a)\<lparr>result := Some r, history := r # history (sess a),
                               status := SUCCESS\<rparr>"
    using assms by (simp add: a'_def r_def handleItemSelect_resume_def Let_def)
  have ind: "\<forall>i' t'. handleItemSelect_resume m
                       (Inr (analysisResult\<lparr>resp_id := i', timestamp := t'\<rparr>)) uuid now (sess a) =
                    handleItemSelect_resume m (Inr analysisResult) uuid now (sess a)"
    by (simp add: handleItemSelect_resume_def Let_def)
  have ids: "resp_id r = Some uuid" "timestamp r = Some now"
    by (simp_all add: r_def)
  have dist: "distinct (map resp_id (history (sess a))) \<and>
            Some uuid \<notin> set (map resp_id (history (sess a))) \<longrightarrow>
              distinct (map resp_id (history (sess a')))"
    by (simp add: f ids)
  from s f ind ids dist show ?thesis
    by (intro exI [of _ a'] exI [of _ r]) (simp add: r_def)
qed

text \<open>C5 on the sample page: the identifier sent by the service is replaced.\<close>

theorem diagnosis_success_stamps_and_prepends_witness:
  "nth_opt (pending sample_analyzing) 0 = Some (PendingAnalyze sample_media) \<and>
   map_option (map_option resp_id \<circ> result \<circ> sess)
     (app_step (AnalysisSettled 0 (Inr sample_analysis) ''uuid-1'' 1000) sample_analyzing) =
     Some (Some (Some ''uuid-1'')) \<and>
   resp_id sample_analysis = Some ''from-the-model''"
proof -
  have h: "nth_opt (pending sample_analyzing) 0 = Some (PendingAnalyze sample_media)"
    by (simp add: sample_analyzing_def nth_opt_def)
  from diagnosis_success_stamps_and_prepends [OF h, of sample_analysis "''uuid-1''" 1000] obtain a' r where
    "app_step (AnalysisSettled 0 (Inr sample_analysis) ''uuid-1'' 1000) sample_analyzing = Some a'"
    "resp_id r = Some ''uuid-1''" "result (sess a') = Some r"
    by blast
  with h show ?thesis by (simp add: sample_analysis_def)
qed

section \<open>Chat failures stay in the chat (C6)\<close>

text \<open>
  Claim C6. A send that passes the guard appends the user's message and issues the call;
  when the call fails, the apology of that chat is appended after it as a \<open>model\<close> turn,
  and the session is the one from before the send. In any state, a failed reply only
  appends the apology to the transcript and leaves the session alone.
\<close>

theorem chat_failure_appends_apology:
  "(result (sess a) = Some data \<and> status (sess a) = SUCCESS \<and>
    trim (input (repairChat a)) \<noteq> [] \<and> \<not> isChatLoading (repairChat a) \<longrightarrow>
      (\<exists>a1 a2.
         app_step RepairSendClicked a = Some a1 \<and>
         chatHistory (repairChat a1) =
           chatHistory (repairChat a) @ [\<lparr>role = user, msg_text = input (repairChat a)\<rparr>] \<and>
         calls a1 = calls a @
           [GetChatResponseCall data (chatHistory (repairChat a)) (input (repairChat a))] \<and>
         app_step (RepairChatSettled (Inl e)) a1 = Some a2 \<and>
         chatHistory (repairChat a2) =
           chatHistory (repairChat a) @
             [\<lparr>role = user, msg_text = input (repairChat a)\<rparr>,
              \<lparr>role = model, msg_text = ''Sorry, I encountered an error answering that.''\<rparr>] \<and>
         \<not> isChatLoading (repairChat a2) \<and>
         sess a1 = sess a \<and> sess a2 = sess a \<and> calls a2 = calls a1)) \<and>
   (trim (support_input (supportChat a)) \<noteq> [] \<and> \<not> isLoading (supportChat a) \<longrightarrow>
      (\<exists>a1 a2.
         app_step SupportSendClicked a = Some a1 \<and>
         messages (supportChat a1) =
           messages (supportChat a) @
             [\<lparr>role = user, msg_text = support_input (supportChat a)\<rparr>] \<and>
         calls a1 = calls a @
           [GetSupportChatResponseCall (messages (supportChat a)) (support_input (supportChat a))] \<and>
         app_step (SupportChatSettled (Inl e)) a1 = Some a2 \<and>
         messages (supportChat a2) =
           messages (supportChat a) @
             [\<lparr>role = user, msg_text = support_input (supportChat a)\<rparr>,
              \<lparr>role = model,
               msg_text = ''Sorry, I'm having trouble connecting. Please check your internet or try again.''\<rparr>] \<and>
         \<not> isLoading (supportChat a2) \<and>
         sess a1 = sess a \<and> sess a2 = sess a \<and> calls a2 = calls a1)) \<and>
   (enabled (RepairChatSettled (Inl e)) a \<longrightarrow>
      (\<exists>a'. app_step (RepairChatSettled (Inl e)) a = Some a' \<and>
            chatHistory (repairChat a') =
              chatHistory (repairChat a) @
                [\<lparr>role = model, msg_text = ''Sorry, I encountered an error answering that.''\<rparr>] \<and>
            sess a' = sess a)) \<and>
   (enabled (SupportChatSettled (Inl e)) a \<longrightarrow>
      (\<exists>a'. app_step (SupportChatSettled (Inl e)) a = Some a' \<and>
            messages (supportChat a') =
              messages (supportChat a) @
                [\<lparr>role = model,
                  msg_text = ''Sorry, I'm having trouble connecting. Please check your internet or try again.''\<rparr>] \<and>
            sess a' = sess a))"
proof (intro conjI impI)
  assume h: "result (sess a) = Some data \<and> status (sess a) = SUCCESS \<and>
    trim (input (repairChat a)) \<noteq> [] \<and> \<not> isChatLoading (repairChat a)"
  define a1 where "a1 = fire RepairSendClicked a"
  define a2 where "a2 = fire (RepairChatSettled (Inl e)) a1"
  have f1: "a1 = a\<lparr>repairChat := (repairChat a)\<lparr>chatHistory := chatHistory (repairChat a) @
                     [\<lparr>role = user, msg_text = input (repairChat a)\<rparr>],
                   input := [], isChatLoading := True\<rparr>,
                 calls := calls a @
                   [GetChatResponseCall data (chatHistory (repairChat a)) (input (repairChat a))]\<rparr>"
    using h by (simp add: a1_def handleSendChat_begin_def)
  have "render (sess a) a1 = a1"
    by (rule render_same_session) (simp add: f1)
  moreover have "app_step RepairSendClicked a = Some (render (sess a) a1)"
    using h by (simp add: app_step_def result_shown_def a1_def)
  ultimately have s1: "app_step RepairSendClicked a = Some a1"
    by simp
  have "render (sess a1) a2 = a2"
    by (rule render_same_session) (simp add: a2_def)
  moreover have "app_step (RepairChatSettled (Inl e)) a1 = Some (render (sess a1) a2)"
    using h by (simp add: app_step_def result_shown_def a2_def f1)
  ultimately have s2: "app_step (RepairChatSettled (Inl e)) a1 = Some a2"
    by simp
  have f2: "chatHistory (repairChat a2) =
           chatHistory (repairChat a) @
             [\<lparr>role = user, msg_text = input (repairChat a)\<rparr>,
              \<lparr>role = model, msg_text = ''Sorry, I encountered an error answering that.''\<rparr>]"
    "\<not> isChatLoading (repairChat a2)" "sess a2 = sess a" "calls a2 = calls a1"
    by (simp_all add: a2_def f1 handleSendChat_resume_def repair_apology_def)
  from s1 s2 f2 show "\<exists>a1 a2.
         app_step RepairSendClicked a = Some a1 \<and>
         chatHistory (repairChat a1) =
           chatHistory (repairChat a) @ [\<lparr>role = user, msg_text = input (repairChat a)\<rparr>] \<and>
         calls a1 = calls a @
           [GetChatResponseCall data (chatHistory (repairChat a)) (input (repairChat a))] \<and>
         app_step (RepairChatSettled (Inl e)) a1 = Some a2 \<and>
         chatHistory (repairChat a2) =
           chatHistory (repairChat a) @
             [\<lparr>role = user, msg_text = input (repairChat a)\<rparr>,
              \<lparr>role = model, msg_text = ''Sorry, I encountered an error answering that.''\<rparr>] \<and>
         \<not> isChatLoading (repairChat a2) \<and>
         sess a1 = sess a \<and> sess a2 = sess a \<and> calls a2 = calls a1"
    by (intro exI [of _ a1] exI [of _ a2]) (simp add: f1)
next
  assume h: "trim (support_input (supportChat a)) \<noteq> [] \<and> \<not> isLoading (supportChat a)"
  define a1 where "a1 = fire SupportSendClicked a"
  define a2 where "a2 = fire (SupportChatSettled (Inl e)) a1"
  have f1: "a1 = a\<lparr>supportChat := (supportChat a)\<lparr>messages := messages (supportChat a) @
                     [\<lparr>role = user, msg_text = support_input (supportChat a)\<rparr>],
                   support_input := [], isLoading := True\<rparr>,
                 calls := calls a @
                   [GetSupportChatResponseCall (messages (supportChat a))
                      (support_input (supportChat a))]\<rparr>"
    using h by (simp add: a1_def handleSend_begin_def)
  have "render (sess a) a1 = a1"
    by (rule render_same_session) (simp add: f1)
  moreover have "app_step SupportSendClicked a = Some (render (sess a) a1)"
    by (simp add: app_step_def a1_def)
  ultimately have s1: "app_step SupportSendClicked a = Some a1"
    by simp
  have "render (sess a1) a2 = a2"
    by (rule render_same_session) (simp add: a2_def)
  moreover have "app_step (SupportChatSettled (Inl e)) a1 = Some (render (sess a1) a2)"
    by (simp add: app_step_def a2_def f1)
  ultimately have s2: "app_step (SupportChatSettled (Inl e)) a1 = Some a2"
    by simp
  have f2: "messages (supportChat a2) =
           messages (supportChat a) @
             [\<lparr>role = user, msg_text = support_input (supportChat a)\<rparr>,
              \<lparr>role = model,
               msg_text = ''Sorry, I'm having trouble connecting. Please check your internet or try again.''\<rparr>]"
    "\<not> isLoading (supportChat a2)" "sess a2 = sess a" "calls a2 = calls a1"
    by (simp_all add: a2_def f1 handleSend_resume_def support_apology_def)
  from s1 s2 f2 show "\<exists>a1 a2.
         app_step SupportSendClicked a = Some a1 \<and>
         messages (supportChat a1) =
           messages (supportChat a) @
             [\<lparr>role = user, msg_text = support_input (supportChat a)\<rparr>] \<and>
         calls a1 = calls a @
           [GetSupportChatResponseCall (messages (supportChat a)) (support_input (supportChat a))] \<and>
         app_step (SupportChatSettled (Inl e)) a1 = Some a2 \<and>
         messages (supportChat a2) =
           messages (supportChat a) @
             [\<lparr>role = user, msg_text = support_input (supportChat a)\<rparr>,
              \<lparr>role = model,
               msg_text = ''Sorry, I'm having trouble connecting. Please check your internet or try again.''\<rparr>] \<and>
         \<not> isLoading (supportChat a2) \<and>
         sess a1 = sess a \<and> sess a2 = sess a \<and> calls a2 = calls a1"
    by (intro exI [of _ a1] exI [of _ a2]) (simp add: f1)
next
  assume "enabled (RepairChatSettled (Inl e)) a"
  then show "\<exists>a'. app_step (RepairChatSettled (Inl e)) a = Some a' \<and>
            chatHistory (repairChat a') =
              chatHistory (repairChat a) @
                [\<lparr>role = model, msg_text = ''Sorry, I encountered an error answering that.''\<rparr>] \<and>
            sess a' = sess a"
    by (simp add: app_step_def render_same_session handleSendChat_resume_def repair_apology_def)
next
  assume "enabled (SupportChatSettled (Inl e)) a"
  then show "\<exists>a'. app_step (SupportChatSettled (Inl e)) a = Some a' \<and>
            messages (supportChat a') =
              messages (supportChat a) @
                [\<lparr>role = model,
                  msg_text = ''Sorry, I'm having trouble connecting. Please check your internet or try again.''\<rparr>] \<and>
            sess a' = sess a"
    by (simp add: app_step_def render_same_session handleSend_resume_def support_apology_def)
qed

text \<open>C6 on the sample page, for both chats.\<close>

theorem chat_failure_appends_apology_witness:
  "trim (input (repairChat sample_asking)) \<noteq> [] \<and>
   trim (support_input (supportChat sample_asking)) \<noteq> [] \<and>
   map_option (chatHistory \<circ> repairChat)
     (run [RepairSendClicked, RepairChatSettled (Inl (ServiceFailure ''timeout''))] sample_asking) =
     Some [\<lparr>role = user, msg_text = ''Which wrench?''\<rparr>,
           \<lparr>role = model, msg_text = ''Sorry, I encountered an error answering that.''\<rparr>] \<and>
   map_option (status \<circ> sess)
     (run [RepairSendClicked, RepairChatSettled (Inl (ServiceFailure ''timeout''))] sample_asking) =
     Some SUCCESS \<and>
   map_option (messages \<circ> supportChat)
     (run [SupportSendClicked, SupportChatSettled (Inl (ServiceFailure ''timeout''))] sample_asking) =
     Some [\<lparr>role = model, msg_text = ''Hi! I can help you use the FixIt AI app. What can I do for you?''\<rparr>,
           \<lparr>role = user, msg_text = ''How do I upload?''\<rparr>,
           \<lparr>role = model,
            msg_text = ''Sorry, I'm having trouble connecting. Please check your internet or try again.''\<rparr>]"
proof -
  have f: "result (sess sample_asking) = Some sample_analysis" "status (sess sample_asking) = SUCCESS"
    "input (repairChat sample_asking) = ''Which wrench?''"
    "chatHistory (repairChat sample_asking) = []"
    "\<not> isChatLoading (repairChat sample_asking)"
    "support_input (supportChat sample_asking) = ''How do I upload?''"
    "messages (supportChat sample_asking) =
       [\<lparr>role = model, msg_text = ''Hi! I can help you use the FixIt AI app. What can I do for you?''\<rparr>]"
    "\<not> isLoading (supportChat sample_asking)"
    by (simp_all add: sample_asking_def initial_app_def initial_session_def fresh_repair_chat_def
        initial_support_chat_def support_welcome_def)
  note c = chat_failure_appends_apology [of sample_asking sample_analysis "ServiceFailure ''timeout''"]
  from c f trim_nonblank obtain a1 a2 where
    "app_step RepairSendClicked sample_asking = Some a1"
    "app_step (RepairChatSettled (Inl (ServiceFailure ''timeout''))) a1 = Some a2"
    "chatHistory (repairChat a2) =
       [\<lparr>role = user, msg_text = ''Which wrench?''\<rparr>,
        \<lparr>role = model, msg_text = ''Sorry, I encountered an error answering that.''\<rparr>]"
    "sess a2 = sess sample_asking"
    by auto
  then have r: "map_option (chatHistory \<circ> repairChat)
     (run [RepairSendClicked, RepairChatSettled (Inl (ServiceFailure ''timeout''))] sample_asking) =
     Some [\<lparr>role = user, msg_text = ''Which wrench?''\<rparr>,
           \<lparr>role = model, msg_text = ''Sorry, I encountered an error answering that.''\<rparr>]"
    "map_option (status \<circ> sess)
     (run [RepairSendClicked, RepairChatSettled (Inl (ServiceFailure ''timeout''))] sample_asking) =
     Some SUCCESS"
    by (simp_all add: f)
  from c f trim_nonblank obtain b1 b2 where
    "app_step SupportSendClicked sample_asking = Some b1"
    "app_step (SupportChatSettled (Inl (ServiceFailure ''timeout''))) b1 = Some b2"
    "messages (supportChat b2) =
       [\<lparr>role = model, msg_text = ''Hi! I can help you use the FixIt AI app. What can I do for you?''\<rparr>,
        \<lparr>role = user, msg_text = ''How do I upload?''\<rparr>,
        \<lparr>role = model,
         msg_text = ''Sorry, I'm having trouble connecting. Please check your internet or try again.''\<rparr>]"
    by auto
  then have "map_option (messages \<circ> supportChat)
     (run [SupportSendClicked, SupportChatSettled (Inl (ServiceFailure ''timeout''))] sample_asking) =
     Some [\<lparr>role = model, msg_text = ''Hi! I can help you use the FixIt AI app. What can I do for you?''\<rparr>,
           \<lparr>role = user, msg_text = ''How do I upload?''\<rparr>,
           \<lparr>role = model,
            msg_text = ''Sorry, I'm having trouble connecting. Please check your internet or try again.''\<rparr>]"
    by simp
  with r f trim_nonblank show ?thesis by simp
qed

section \<open>Oversized files (C7)\<close>

text \<open>
  Claim C7. A file of more than \<open>20 * 1024 * 1024\<close> bytes given to the upload box raises
  the alert and changes nothing else: the session, the preview, the promises in flight and
  the gateway calls are as before.
\<close>

theorem oversized_file_rejected:
  assumes "file_size fl > 20 * 1024 * 1024" and "enabled (FileChosen fl) a"
  shows "handleFile (Some fl) =
           Rejected ''File size too large. Please upload files smaller than 20MB.'' \<and>
         app_step (FileChosen fl) a =
           Some (a\<lparr>alerts := alerts a @
                     [''File size too large. Please upload files smaller than 20MB.'']\<rparr>)"
proof -
  have rej: "handleFile (Some fl) =
           Rejected ''File size too large. Please upload files smaller than 20MB.''"
    using assms(1) by (simp add: handleFile_def size_limit_def too_large_message_def)
  have "render (sess a) (fire (FileChosen fl) a) = fire (FileChosen fl) a"
    by (rule render_same_session) (simp add: rej)
  with assms(2) rej show ?thesis
    by (simp add: app_step_def)
qed

text \<open>C7 for a file of 25 MB on the initial page.\<close>

theorem oversized_file_rejected_witness:
  "file_size big_file > 20 * 1024 * 1024 \<and> enabled (FileChosen big_file) initial_app \<and>
   app_step (FileChosen big_file) initial_app =
     Some (initial_app\<lparr>alerts :=
             [''File size too large. Please upload files smaller than 20MB.'']\<rparr>)"
proof -
  have h1: "file_size big_file > 20 * 1024 * 1024"
    by (simp add: big_file_def)
  have h2: "enabled (FileChosen big_file) initial_app"
    by (simp add: upload_shown_def initial_app_def initial_session_def)
  have "alerts initial_app = []"
    by (simp add: initial_app_def)
  with oversized_file_rejected [OF h1 h2] h1 h2 show ?thesis by simp
qed

section \<open>Overlays and the image bounds (C8)\<close>

text \<open>Rounding to an integer moves by at most one half and does not cross an integer.\<close>

lemma round_even_near: "\<bar>of_int (round_even t) - t\<bar> \<le> 1 / 2"
proof -
  have "of_int \<lfloor>t\<rfloor> \<le> t" and "t < of_int \<lfloor>t\<rfloor> + 1"
    by linarith+
  then show ?thesis
    by (auto simp: round_even_def Let_def)
qed

lemma round_even_le:
  assumes "t \<le> of_int N"
  shows "round_even t \<le> N"
proof -
  have fl: "\<lfloor>t\<rfloor> \<le> N"
    using assms by (simp add: floor_le_iff)
  show ?thesis
  proof (cases "\<lfloor>t\<rfloor> = N")
    case True
    with assms have "t - of_int \<lfloor>t\<rfloor> \<le> 0" by simp
    then have "round_even t = \<lfloor>t\<rfloor>"
      by (simp add: round_even_def Let_def)
    with True show ?thesis by simp
  next
    case False
    with fl have "\<lfloor>t\<rfloor> + 1 \<le> N" by simp
    moreover have "round_even t \<le> \<lfloor>t\<rfloor> + 1"
      by (simp add: round_even_def Let_def)
    ultimately show ?thesis by simp
  qed
qed

lemma round_even_nonneg:
  assumes "0 \<le> t"
  shows "0 \<le> round_even t"
proof -
  from assms have "0 \<le> \<lfloor>t\<rfloor>" by simp
  moreover have "\<lfloor>t\<rfloor> \<le> round_even t"
    by (simp add: round_even_def Let_def)
  ultimately show ?thesis by (rule order_trans)
qed

lemma binade_less: "0 < k \<Longrightarrow> x < 2 powi k \<Longrightarrow> binade n x < k"
proof (induction n arbitrary: x k)
  case 0
  then show ?case by simp
next
  case (Suc n)
  show ?case
  proof (cases "2 \<le> x")
    case True
    have "1 < k"
    proof (rule ccontr)
      assume "\<not> 1 < k"
      then have "k \<le> 1" by simp
      then have "(2::real) powi k \<le> 2 powi 1"
        by (intro power_int_increasing) simp_all
      with Suc.prems(2) True show False by simp
    qed
    then have k: "0 < k - 1" by simp
    have "(2::real) powi k = 2 powi (k - 1) * 2"
      by (simp add: power_int_minus_mult)
    with Suc.prems(2) have "x / 2 < 2 powi (k - 1)" by simp
    from Suc.IH [OF k this] True show ?thesis by simp
  next
    case False
    show ?thesis
    proof (cases "x < 1")
      case True
      then have "2 * x < 2 powi 1" by simp
      from Suc.IH [OF _ this] have "binade n (2 * x) < 1" by simp
      with True False Suc.prems(1) show ?thesis by simp
    next
      case nl: False
      with False Suc.prems(1) show ?thesis by simp
    qed
  qed
qed

lemma round_double_grid:
  assumes "0 \<le> x" and "x \<le> c" and "c < 2 powi k" and "0 < k" and "k \<le> 1024"
    and "c = of_int N * 2 powi (k - 53)"
  shows "\<exists>r. round_double x = Some r \<and> 0 \<le> r \<and> r \<le> c \<and> \<bar>r - x\<bar> \<le> 2 powi (k - 54)"
proof -
  define e where "e = max (binade 1100 \<bar>x\<bar>) (- 1022)"
  define u :: real where "u = 2 powi (e - 52)"
  define m where "m = round_even (\<bar>x\<bar> / u)"
  have ax: "\<bar>x\<bar> = x" using assms(1) by simp
  have "x < 2 powi k" using assms(2,3) by simp
  from binade_less [OF assms(4) this] assms(4) have e_le: "e \<le> k - 1"
    by (simp add: e_def ax)
  have u_pos: "0 < u" by (simp add: u_def)
  have u_le: "u \<le> 2 powi (k - 53)"
    unfolding u_def using e_le by (intro power_int_increasing) simp_all
  have "(2::real) powi (k - 53) = 2 powi (e - 52) * 2 powi (k - 1 - e)"
    by (simp flip: power_int_add)
  also have "(2::real) powi (k - 1 - e) = 2 ^ nat (k - 1 - e)"
    using e_le by (simp add: power_int_nonneg_exp)
  finally have grid: "c = u * of_int (N * 2 ^ nat (k - 1 - e))"
    by (simp add: assms(6) u_def)
  have "x / u \<le> c / u"
    using assms(2) u_pos by (simp add: divide_right_mono)
  also have "c / u = of_int (N * 2 ^ nat (k - 1 - e))"
    using u_pos by (subst grid) simp
  finally have m_le: "m \<le> N * 2 ^ nat (k - 1 - e)"
    unfolding m_def ax by (rule round_even_le)
  have m_ge: "0 \<le> m"
    unfolding m_def ax using assms(1) u_pos by (intro round_even_nonneg) simp
  have r_le: "u * of_int m \<le> c"
  proof -
    have "(of_int m :: real) \<le> of_int (N * 2 ^ nat (k - 1 - e))"
      using m_le by (simp only: of_int_le_iff)
    then have "u * of_int m \<le> u * of_int (N * 2 ^ nat (k - 1 - e))"
      using u_pos by (intro mult_left_mono) simp_all
    with grid show ?thesis by simp
  qed
  have r_ge: "0 \<le> u * of_int m"
    using m_ge u_pos by simp
  have "u * of_int m - x = u * (of_int m - x / u)"
    using u_pos by (simp add: algebra_simps)
  then have "\<bar>u * of_int m - x\<bar> = u * \<bar>of_int m - x / u\<bar>"
    using u_pos by (simp add: abs_mult)
  also have "\<dots> \<le> u * (1 / 2)"
    using round_even_near [of "x / u"] u_pos unfolding m_def ax
    by (intro mult_left_mono) simp_all
  also have "\<dots> \<le> 2 powi (k - 53) * (1 / 2)"
    using u_le by simp
  also have "\<dots> = 2 powi (k - 54)"
  proof -
    have "(2::real) powi (k - 53) = 2 powi (k - 54) * 2"
      using power_int_minus_mult [of "2::real" "k - 53"] by simp
    then show ?thesis by simp
  qed
  finally have near: "\<bar>u * of_int m - x\<bar> \<le> 2 powi (k - 54)" .
  have "(2::real) powi k \<le> 2 powi 1024"
    using assms(5) by (intro power_int_increasing) simp_all
  with r_le assms(3) have fin: "\<not> 2 powi 1024 \<le> u * of_int m"
    by simp
  have "round_double x = Some (u * of_int m)"
    using fin assms(1)
    unfolding round_double_def Let_def e_def [symmetric] u_def [symmetric] m_def [symmetric]
    by simp
  with r_ge r_le near show ?thesis by simp
qed

lemma percent_bounds:
  assumes "0 \<le> v" and "v \<le> 1000"
  shows "\<exists>p. percent v = Some p \<and> 0 \<le> p \<and> p \<le> 100 \<and>
           \<bar>p - v / 10\<bar> \<le> 2 powi (- 47) + 100 * 2 powi (- 53)"
proof -
  have "\<exists>q. round_double (v / 1000) = Some q \<and> 0 \<le> q \<and> q \<le> 1 \<and>
           \<bar>q - v / 1000\<bar> \<le> 2 powi (1 - 54)"
    using assms by (intro round_double_grid [where N = "2 ^ 52"]) simp_all
  then obtain q where q: "round_double (v / 1000) = Some q" "0 \<le> q" "q \<le> 1"
    "\<bar>q - v / 1000\<bar> \<le> 2 powi (- 53)"
    by auto
  have "\<exists>p. round_double (q * 100) = Some p \<and> 0 \<le> p \<and> p \<le> 100 \<and>
           \<bar>p - q * 100\<bar> \<le> 2 powi (7 - 54)"
    using q(2,3) by (intro round_double_grid [where N = "100 * 2 ^ 46"]) simp_all
  then obtain p where p: "round_double (q * 100) = Some p" "0 \<le> p" "p \<le> 100"
    "\<bar>p - q * 100\<bar> \<le> 2 powi (- 47)"
    by auto
  have "percent v = Some p"
    by (simp add: percent_def q(1) p(1))
  moreover have "\<bar>p - v / 10\<bar> \<le> 2 powi (- 47) + 100 * 2 powi (- 53)"
  proof -
    have "\<bar>p - v / 10\<bar> \<le> \<bar>p - q * 100\<bar> + 100 * \<bar>q - v / 1000\<bar>"
      by (auto simp: abs_if)
    with p(4) q(4) show ?thesis by linarith
  qed
  ultimately show ?thesis using p(2,3) by simp
qed

lemma span_percent_bounds:
  assumes "0 \<le> lo" and "lo \<le> hi" and "hi \<le> 1000"
  shows "\<exists>p. span_percent hi lo = Some p \<and> 0 \<le> p \<and> p \<le> 100 \<and>
           \<bar>p - (hi - lo) / 10\<bar> \<le> 2 powi (- 47) + 100 * 2 powi (- 53) + 2 powi (- 44) / 10"
proof -
  have "\<exists>s. round_double (hi - lo) = Some s \<and> 0 \<le> s \<and> s \<le> 1000 \<and>
           \<bar>s - (hi - lo)\<bar> \<le> 2 powi (10 - 54)"
    using assms by (intro round_double_grid [where N = "1000 * 2 ^ 43"]) simp_all
  then obtain s where s: "round_double (hi - lo) = Some s" "0 \<le> s" "s \<le> 1000"
    "\<bar>s - (hi - lo)\<bar> \<le> 2 powi (- 44)"
    by auto
  from percent_bounds [OF s(2,3)] obtain p where p: "percent s = Some p" "0 \<le> p" "p \<le> 100"
    "\<bar>p - s / 10\<bar> \<le> 2 powi (- 47) + 100 * 2 powi (- 53)"
    by auto
  have "span_percent hi lo = Some p"
    by (simp add: span_percent_def s(1) p(1))
  moreover have "\<bar>p - (hi - lo) / 10\<bar> \<le> 2 powi (- 47) + 100 * 2 powi (- 53) + 2 powi (- 44) / 10"
  proof -
    have "p - (hi - lo) / 10 = (p - s / 10) + (s - (hi - lo)) / 10"
      by (simp add: field_simps)
    also have "\<bar>\<dots>\<bar> \<le> \<bar>p - s / 10\<bar> + \<bar>(s - (hi - lo)) / 10\<bar>"
      by (rule abs_triangle_ineq)
    finally have "\<bar>p - (hi - lo) / 10\<bar> \<le> \<bar>p - s / 10\<bar> + \<bar>s - (hi - lo)\<bar> / 10"
      by simp
    also have "\<dots> \<le> (2 powi (- 47) + 100 * 2 powi (- 53)) + 2 powi (- 44) / 10"
      using s(4) by (intro add_mono p(4)) simp
    finally show ?thesis .
  qed
  ultimately show ?thesis using p(2,3) by simp
qed

text \<open>Evaluating \<open>round_double\<close> at a concrete non-negative number, one step at a time.\<close>

lemma binade_numeral:
  "binade (numeral k) x =
     (if 2 \<le> x then binade (pred_numeral k) (x / 2) + 1
      else if x < 1 then binade (pred_numeral k) (2 * x) - 1
      else 0)"
proof -
  have "numeral k = Suc (pred_numeral k)" by (rule numeral_eq_Suc)
  then show ?thesis by (simp only: binade.simps)
qed

lemma round_double_eval:
  assumes "0 \<le> x" and "binade 1100 x = b" and "max b (- 1022) - 52 = k"
    and "round_even (x / 2 powi k) = m"
    and "2 powi k * of_int m = r" and "r < 2 powi 1024"
  shows "round_double x = Some r"
  using assms unfolding round_double_def Let_def by auto

lemma percent_64: "percent 64 = Some (3602879701896397 / 2 ^ 49)"
proof -
  have q: "round_double (64 / 1000) = Some (1152921504606847 / 2 ^ 54)"
    by (rule round_double_eval [where b = "- 4" and k = "- 56" and m = 4611686018427388])
       (simp_all add: binade_numeral round_even_def Let_def)
  have "round_double (1152921504606847 / 2 ^ 54 * 100) = Some (3602879701896397 / 2 ^ 49)"
    by (rule round_double_eval [where b = 2 and k = "- 50" and m = 7205759403792794])
       (simp_all add: binade_numeral round_even_def Let_def)
  with q show ?thesis by (simp add: percent_def)
qed

lemma span_percent_1000_64: "span_percent 1000 64 = Some (6586514455029351 / 2 ^ 46)"
proof -
  have s: "round_double (1000 - 64) = Some 936"
    by (rule round_double_eval [where b = 9 and k = "- 43" and m = 8233143068786688])
       (simp_all add: binade_numeral round_even_def Let_def)
  have q: "round_double (936 / 1000) = Some (8430738502437569 / 2 ^ 53)"
    by (rule round_double_eval [where b = "- 1" and k = "- 53" and m = 8430738502437569])
       (simp_all add: binade_numeral round_even_def Let_def)
  have "round_double (8430738502437569 / 2 ^ 53 * 100) = Some (6586514455029351 / 2 ^ 46)"
    by (rule round_double_eval [where b = 6 and k = "- 46" and m = 6586514455029351])
       (simp_all add: binade_numeral round_even_def Let_def)
  with s q show ?thesis by (simp add: span_percent_def percent_def)
qed

text \<open>
  Claim C8 says that for every box with \<open>0 \<le> yMin \<le> yMax \<le> 1000\<close> and
  \<open>0 \<le> xMin \<le> xMax \<le> 1000\<close> the overlay has top \<open>yMin / 10\<close> and top + height at most
  100. The code computes in doubles: for the box \<open>[64, 64, 1000, 1000]\<close> it writes top
  \<^verbatim>\<open>6.4\<close> and height \<^verbatim>\<open>93.60000000000001\<close>; that top is not \<open>64 / 10\<close>, and top + height
  is above 100.
\<close>

theorem overlay_exceeds_bounds_counterexample:
  "box_overlay [64, 64, 1000, 1000] =
     Some \<lparr>top_pct = 3602879701896397 / 2 ^ 49, left = 3602879701896397 / 2 ^ 49,
           height = 6586514455029351 / 2 ^ 46, width = 6586514455029351 / 2 ^ 46\<rparr> \<and>
   (100 :: real) < 3602879701896397 / 2 ^ 49 + 6586514455029351 / 2 ^ 46 \<and>
   (3602879701896397 / 2 ^ 49 :: real) \<noteq> 64 / 10"
  by (simp add: percent_64 span_percent_1000_64)

text \<open>
  Claim C8 as amended. For an annotation whose box starts with \<open>yMin, xMin, yMax, xMax\<close>
  with \<open>0 \<le> yMin \<le> yMax \<le> 1000\<close> and \<open>0 \<le> xMin \<le> xMax \<le> 1000\<close>, the overlay exists; its
  top, left, height and width each lie between 0 and 100 and within \<open>1 / 10 ^ 13\<close> of
  \<open>yMin / 10\<close>, \<open>xMin / 10\<close>, \<open>(yMax - yMin) / 10\<close> and \<open>(xMax - xMin) / 10\<close>; and top + height
  and left + width lie between 0 and \<open>100 + 1 / 10 ^ 13\<close>.
\<close>

theorem overlay_within_rounded_bounds:
  assumes "ann \<in> set anns"
    and "box_2d ann = yMin # xMin # yMax # xMax # rest"
    and "0 \<le> yMin" "yMin \<le> yMax" "yMax \<le> 1000"
    and "0 \<le> xMin" "xMin \<le> xMax" "xMax \<le> 1000"
  shows "\<exists>ov. Some ov \<in> set (AnnotatedImage (Some anns)) \<and>
           box_overlay (box_2d ann) = Some ov \<and>
           0 \<le> top_pct ov \<and> top_pct ov \<le> 100 \<and> 0 \<le> left ov \<and> left ov \<le> 100 \<and>
           0 \<le> height ov \<and> height ov \<le> 100 \<and> 0 \<le> width ov \<and> width ov \<le> 100 \<and>
           \<bar>top_pct ov - yMin / 10\<bar> \<le> 1 / 10 ^ 13 \<and>
           \<bar>left ov - xMin / 10\<bar> \<le> 1 / 10 ^ 13 \<and>
           \<bar>height ov - (yMax - yMin) / 10\<bar> \<le> 1 / 10 ^ 13 \<and>
           \<bar>width ov - (xMax - xMin) / 10\<bar> \<le> 1 / 10 ^ 13 \<and>
           0 \<le> top_pct ov + height ov \<and> top_pct ov + height ov \<le> 100 + 1 / 10 ^ 13 \<and>
           0 \<le> left ov + width ov \<and> left ov + width ov \<le> 100 + 1 / 10 ^ 13"
proof -
  have e1: "(2::real) powi (- 47) + 100 * 2 powi (- 53) \<le> 1 / 10 ^ 13 / 4"
    by simp
  have e2: "(2::real) powi (- 47) + 100 * 2 powi (- 53) + 2 powi (- 44) / 10 \<le> 1 / 10 ^ 13 / 4"
    by simp
  from percent_bounds [of yMin] assms(3-5) obtain t where
    t: "percent yMin = Some t" "0 \<le> t" "t \<le> 100"
    "\<bar>t - yMin / 10\<bar> \<le> 2 powi (- 47) + 100 * 2 powi (- 53)"
    by auto
  from percent_bounds [of xMin] assms(6-8) obtain l where
    l: "percent xMin = Some l" "0 \<le> l" "l \<le> 100"
    "\<bar>l - xMin / 10\<bar> \<le> 2 powi (- 47) + 100 * 2 powi (- 53)"
    by auto
  from span_percent_bounds [OF assms(3-5)] obtain h where
    h: "span_percent yMax yMin = Some h" "0 \<le> h" "h \<le> 100"
    "\<bar>h - (yMax - yMin) / 10\<bar> \<le> 2 powi (- 47) + 100 * 2 powi (- 53) + 2 powi (- 44) / 10"
    by auto
  from span_percent_bounds [OF assms(6-8)] obtain w where
    w: "span_percent xMax xMin = Some w" "0 \<le> w" "w \<le> 100"
    "\<bar>w - (xMax - xMin) / 10\<bar> \<le> 2 powi (- 47) + 100 * 2 powi (- 53) + 2 powi (- 44) / 10"
    by auto
  define ov where "ov = \<lparr>top_pct = t, left = l, height = h, width = w\<rparr>"
  have ov: "box_overlay (box_2d ann) = Some ov"
    by (simp add: assms(2) t(1) l(1) h(1) w(1) ov_def)
  from assms(1) have "anns \<noteq> []" by auto
  then have "AnnotatedImage (Some anns) = map (\<lambda>ann. box_overlay (box_2d ann)) anns"
    by (simp add: AnnotatedImage_def)
  with assms(1) ov have mem: "Some ov \<in> set (AnnotatedImage (Some anns))"
    by force
  define eps :: real where "eps = 1 / 10 ^ 13"
  have e1': "2 powi (- 47) + 100 * 2 powi (- 53) \<le> eps / 4"
    and e2': "2 powi (- 47) + 100 * 2 powi (- 53) + 2 powi (- 44) / 10 \<le> eps / 4"
    using e1 e2 by (simp_all add: eps_def)
  have eps: "0 < eps" by (simp add: eps_def)
  have te: "\<bar>t - yMin / 10\<bar> \<le> eps / 4" using t(4) e1' by (rule order_trans)
  have le: "\<bar>l - xMin / 10\<bar> \<le> eps / 4" using l(4) e1' by (rule order_trans)
  have he: "\<bar>h - (yMax - yMin) / 10\<bar> \<le> eps / 4" using h(4) e2' by (rule order_trans)
  have we: "\<bar>w - (xMax - xMin) / 10\<bar> \<le> eps / 4" using w(4) e2' by (rule order_trans)
  have near: "\<bar>t - yMin / 10\<bar> \<le> eps" "\<bar>l - xMin / 10\<bar> \<le> eps"
    "\<bar>h - (yMax - yMin) / 10\<bar> \<le> eps" "\<bar>w - (xMax - xMin) / 10\<bar> \<le> eps"
    using te le he we eps by linarith+
  have "t - yMin / 10 \<le> eps / 4" "h - (yMax - yMin) / 10 \<le> eps / 4"
    using te he by linarith+
  then have "t - yMin / 10 \<le> eps / 4" "h - (yMax / 10 - yMin / 10) \<le> eps / 4"
    by (simp_all add: diff_divide_distrib)
  with assms(5) eps have th: "t + h \<le> 100 + eps"
    by linarith
  have "l - xMin / 10 \<le> eps / 4" "w - (xMax - xMin) / 10 \<le> eps / 4"
    using le we by linarith+
  then have "l - xMin / 10 \<le> eps / 4" "w - (xMax / 10 - xMin / 10) \<le> eps / 4"
    by (simp_all add: diff_divide_distrib)
  with assms(8) eps have lw: "l + w \<le> 100 + eps"
    by linarith
  note near = near [unfolded eps_def] and th = th [unfolded eps_def] and lw = lw [unfolded eps_def]
  have fields: "top_pct ov = t" "left ov = l" "height ov = h" "width ov = w"
    by (simp_all add: ov_def)
  from mem ov t(2,3) l(2,3) h(2,3) w(2,3) near th lw show ?thesis
    by (intro exI [of _ ov]) (simp add: fields)
qed

text \<open>C8 for the annotation of the sample diagnosis, the box \<open>[100, 200, 300, 400]\<close>.\<close>

theorem overlay_within_rounded_bounds_witness:
  "\<exists>ov. Some ov \<in> set (AnnotatedImage (annotations sample_analysis)) \<and>
        0 \<le> top_pct ov \<and> \<bar>top_pct ov - 10\<bar> \<le> 1 / 10 ^ 13 \<and>
        \<bar>height ov - 20\<bar> \<le> 1 / 10 ^ 13 \<and>
        top_pct ov + height ov \<le> 100 + 1 / 10 ^ 13 \<and>
        left ov + width ov \<le> 100 + 1 / 10 ^ 13"
proof -
  let ?ann = "\<lparr>label = ''Leak'', box_2d = [100, 200, 300, 400 :: real]\<rparr>"
  have a: "annotations sample_analysis = Some [?ann]"
    by (simp add: sample_analysis_def)
  from overlay_within_rounded_bounds [of ?ann "[?ann]" 100 200 300 400 "[]"]
  obtain ov where "Some ov \<in> set (AnnotatedImage (Some [?ann]))"
    and "0 \<le> top_pct ov" "\<bar>top_pct ov - 100 / 10\<bar> \<le> 1 / 10 ^ 13"
    and "\<bar>height ov - (300 - 100) / 10\<bar> \<le> 1 / 10 ^ 13"
    and "top_pct ov + height ov \<le> 100 + 1 / 10 ^ 13"
    and "left ov + width ov \<le> 100 + 1 / 10 ^ 13"
    by auto
  with a show ?thesis by auto
qed

section \<open>History round trip (C9)\<close>

text \<open>
  Claim C9. The result stored by a successful diagnosis is still in the history after any
  further events, and choosing it there makes it the current result again: the same
  record, every field as it was produced. The history itself is not changed by the
  choice.
\<close>

theorem history_round_trip:
  assumes "nth_opt (pending a) i = Some (PendingAnalyze m)"
    and "app_step (AnalysisSettled i (Inr analysisResult) uuid now) a = Some a1"
    and "run es a1 = Some a2"
  shows "\<exists>r k a3.
           r = analysisResult\<lparr>resp_id := Some uuid, timestamp := Some now,
                              imageUrl := Some (previewUrl m)\<rparr> \<and>
           result (sess a1) = Some r \<and>
           history (sess a1) = r # history (sess a) \<and>
           nth_opt (history (sess a2)) k = Some r \<and>
           app_step (HistoryClicked k) a2 = Some a3 \<and>
           result (sess a3) = Some r \<and>
           status (sess a3) = SUCCESS \<and>
           history (sess a3) = history (sess a2)"
proof -
  define r where "r = analysisResult\<lparr>resp_id := Some uuid, timestamp := Some now,
                              imageUrl := Some (previewUrl m)\<rparr>"
  from assms(2) have a1: "a1 = render (sess a) (fire (AnalysisSettled i (Inr analysisResult) uuid now) a)"
    by (simp add: app_step_def split: if_splits)
  have f: "result (sess a1) = Some r" "history (sess a1) = r # history (sess a)"
    using assms(1) by (simp_all add: a1 r_def handleItemSelect_resume_def Let_def)
  from run_history [OF assms(3)] obtain pre where
    h2: "history (sess a2) = pre @ r # history (sess a)"
    by (auto simp: f)
  define k where "k = length pre"
  have n: "nth_opt (history (sess a2)) k = Some r"
    by (simp add: nth_opt_def h2 k_def)
  define a3 where "a3 = render (sess a2) (fire (HistoryClicked k) a2)"
  have en: "enabled (HistoryClicked k) a2"
    by (simp add: h2 k_def)
  then have s3: "app_step (HistoryClicked k) a2 = Some a3"
    by (simp add: app_step_def a3_def)
  have f3: "sess a3 = handleHistorySelect r (sess a2)"
    by (simp add: a3_def n)
  then have "result (sess a3) = Some r" "status (sess a3) = SUCCESS"
    "history (sess a3) = history (sess a2)"
    by (simp_all add: handleHistorySelect_def)
  with f n s3 show ?thesis
    by (intro exI [of _ r] exI [of _ k] exI [of _ a3]) (simp add: r_def)
qed

text \<open>C9 on the sample page: diagnosis, reset, then the entry is opened from the history.\<close>

theorem history_round_trip_witness:
  "nth_opt (pending sample_analyzing) 0 = Some (PendingAnalyze sample_media) \<and>
   map_option (map_option title \<circ> result \<circ> sess)
     (run [AnalysisSettled 0 (Inr sample_analysis) ''uuid-1'' 1000, ResetClicked, HistoryClicked 0]
        sample_analyzing) = Some (Some ''Dripping faucet'')"
proof -
  have h: "nth_opt (pending sample_analyzing) 0 = Some (PendingAnalyze sample_media)"
    by (simp add: sample_analyzing_def nth_opt_def)
  obtain a1 where s1:
    "app_step (AnalysisSettled 0 (Inr sample_analysis) ''uuid-1'' 1000) sample_analyzing = Some a1"
    using h by (simp add: app_step_def)
  obtain a2 where s2: "run [ResetClicked] a1 = Some a2"
    by (simp add: app_step_def)
  from history_round_trip [OF h s1 s2] obtain r k a3 where
    r: "r = sample_analysis\<lparr>resp_id := Some ''uuid-1'', timestamp := Some 1000,
                            imageUrl := Some (previewUrl sample_media)\<rparr>"
    and hist: "history (sess a1) = r # history (sess sample_analyzing)"
    and k: "nth_opt (history (sess a2)) k = Some r"
    and s3: "app_step (HistoryClicked k) a2 = Some a3"
    and res: "result (sess a3) = Some r"
    by blast
  from s2 have a2: "a2 = render (sess a1) (fire ResetClicked a1)"
    by (simp add: app_step_def)
  have "history (sess sample_analyzing) = []"
    by (simp add: sample_analyzing_def sample_uploaded_def initial_app_def initial_session_def)
  with hist have "history (sess a2) = [r]"
    by (simp add: a2 handleReset_def)
  with k have "k = 0"
    by (simp add: nth_opt_def split: if_splits)
  with s3 have s3': "app_step (HistoryClicked 0) a2 = Some a3"
    by simp
  from s2 have s2': "app_step ResetClicked a1 = Some a2"
    by (simp split: option.splits)
  have "run [AnalysisSettled 0 (Inr sample_analysis) ''uuid-1'' 1000, ResetClicked, HistoryClicked 0]
          sample_analyzing = Some a3"
    by (simp add: s1 s2' s3')
  with res have
    "map_option (map_option title \<circ> result \<circ> sess)
       (run [AnalysisSettled 0 (Inr sample_analysis) ''uuid-1'' 1000, ResetClicked, HistoryClicked 0]
          sample_analyzing) = Some (Some (title r))"
    by simp
  moreover have "title r = ''Dripping faucet''"
    by (simp add: r sample_analysis_def)
  ultimately show ?thesis using h by simp
qed

section \<open>Empty chat replies (C10)\<close>

text \<open>
  Claim C10. With a key configured, an exchange that succeeds with an absent or empty
  reply text makes \<open>getChatResponse\<close> return \<^verbatim>\<open>I couldn't generate a response.\<close> and
  \<open>getSupportChatResponse\<close> return
  \<^verbatim>\<open>I'm having trouble connecting right now. Please try again later.\<close>, exactly what each
  returns when the service replies with that very sentence.
\<close>

theorem empty_chat_reply_canned:
  assumes "truthy_str apiKey" and "\<not> truthy_str (resp_text res)"
  shows "getChatResponse apiKey (Inr res) = Inr ''I couldn't generate a response.'' \<and>
    getSupportChatResponse apiKey (Inr res) =
      Inr ''I'm having trouble connecting right now. Please try again later.'' \<and>
    getChatResponse apiKey (Inr res) =
      getChatResponse apiKey (Inr \<lparr>resp_text = Some ''I couldn't generate a response.''\<rparr>) \<and>
    getSupportChatResponse apiKey (Inr res) =
      getSupportChatResponse apiKey
        (Inr \<lparr>resp_text = Some ''I'm having trouble connecting right now. Please try again later.''\<rparr>)"
  using assms
  by (cases "resp_text res")
     (simp_all add: getChatResponse_def getSupportChatResponse_def repair_chat_canned_def
        support_chat_canned_def)

text \<open>C10 for a reply with empty text.\<close>

theorem empty_chat_reply_canned_witness:
  "truthy_str (Some ''key'') \<and> \<not> truthy_str (resp_text \<lparr>resp_text = Some []\<rparr>) \<and>
   getChatResponse (Some ''key'') (Inr \<lparr>resp_text = Some []\<rparr>) =
     Inr ''I couldn't generate a response.'' \<and>
   getSupportChatResponse (Some ''key'') (Inr \<lparr>resp_text = Some []\<rparr>) =
     Inr ''I'm having trouble connecting right now. Please try again later.''"
  using empty_chat_reply_canned [of "Some ''key''" "\<lparr>resp_text = Some []\<rparr>"] by simp

end
